theory Spec2Isabelle
  imports Complex_Main "HOL-Library.Log_Nat"
begin

section \<open>Double-precision values\<close>

text \<open>
  The functions of \<^verbatim>\<open>vectorbt/portfolio/nb.py\<close> compute on double-precision floats
  (IEEE 754 binary64). They are embedded over the type \<open>fl\<close>: a finite value carries a
  real number, and the three special values that the code tests for (\<^verbatim>\<open>np.nan\<close>,
  \<^verbatim>\<open>np.inf\<close>, \<^verbatim>\<open>-np.inf\<close>) are constructors of their own. Addition, multiplication
  and division compute the exact real result and round it to the nearest double, ties
  to even, with overflow to an infinity and gradual underflow. The special values
  follow IEEE 754: NaN propagates, every ordered comparison with NaN is false,
  \<open>inf - inf\<close> and \<open>0 * inf\<close> are NaN. The sign of a zero is not modelled: the code
  never looks at it.
\<close>

subsection \<open>Rounding to the nearest double\<close>

text \<open>The nearest integer, a tie going to the even one.\<close>

definition round_even :: "real \<Rightarrow> int" where
  "round_even x =
     (let n = \<lfloor>x\<rfloor>; r = x - of_int n
      in if r < 1 / 2 then n else if 1 / 2 < r then n + 1
         else if even n then n else n + 1)"

text \<open>
  The binary exponent of a value that is not zero: \<open>2 ^ expo x \<le> |x| < 2 ^ (expo x + 1)\<close>.
\<close>

definition expo :: "real \<Rightarrow> int" where
  "expo x = (if 1 \<le> \<bar>x\<bar> then bitlen \<lfloor>\<bar>x\<bar>\<rfloor> - 1 else - bitlen (\<lceil>1 / \<bar>x\<bar>\<rceil> - 1))"

text \<open>
  The exponent of the unit in the last place: a double has 53 significant bits, and
  below \<open>2 ^ -1022\<close> the spacing stays \<open>2 ^ -1074\<close>.
\<close>

definition ulp_exp :: "real \<Rightarrow> int" where
  "ulp_exp x = max (expo x) (- 1022) - 52"

definition round_real :: "real \<Rightarrow> real" where
  "round_real x = of_int (round_even (x / 2 powi ulp_exp x)) * 2 powi ulp_exp x"

text \<open>The reals that are doubles.\<close>

definition is_double :: "real \<Rightarrow> bool" where
  "is_double x = (round_real x = x \<and> \<bar>x\<bar> < 2 ^ 1024)"

subsection \<open>Values and operations\<close>

datatype fl = NaN | PInf | NInf | Fin real

text \<open>The double nearest to a real; a result of magnitude \<open>2 ^ 1024\<close> overflows.\<close>

definition rnd :: "real \<Rightarrow> fl" where
  "rnd x =
     (let y = round_real x
      in if 2 ^ 1024 \<le> y then PInf else if y \<le> - (2 ^ 1024) then NInf else Fin y)"

fun isnan :: "fl \<Rightarrow> bool" where
  "isnan NaN = True"
| "isnan _ = False"

fun isinf :: "fl \<Rightarrow> bool" where
  "isinf PInf = True"
| "isinf NInf = True"
| "isinf _ = False"

fun isfinite :: "fl \<Rightarrow> bool" where
  "isfinite (Fin _) = True"
| "isfinite _ = False"

fun fneg :: "fl \<Rightarrow> fl" where
  "fneg NaN = NaN"
| "fneg PInf = NInf"
| "fneg NInf = PInf"
| "fneg (Fin x) = Fin (- x)"

fun fabs :: "fl \<Rightarrow> fl" where
  "fabs NaN = NaN"
| "fabs PInf = PInf"
| "fabs NInf = PInf"
| "fabs (Fin x) = Fin \<bar>x\<bar>"

fun fadd :: "fl \<Rightarrow> fl \<Rightarrow> fl" where
  "fadd (Fin x) (Fin y) = rnd (x + y)"
| "fadd NaN _ = NaN"
| "fadd _ NaN = NaN"
| "fadd PInf NInf = NaN"
| "fadd NInf PInf = NaN"
| "fadd PInf _ = PInf"
| "fadd NInf _ = NInf"
| "fadd _ PInf = PInf"
| "fadd _ NInf = NInf"

definition fsub :: "fl \<Rightarrow> fl \<Rightarrow> fl" where
  "fsub a b = fadd a (fneg b)"

text \<open>Sign of a value that is not NaN: \<open>-1\<close>, \<open>0\<close> or \<open>1\<close>.\<close>

fun fsgn :: "fl \<Rightarrow> int" where
  "fsgn NaN = 0"
| "fsgn PInf = 1"
| "fsgn NInf = - 1"
| "fsgn (Fin x) = (if x < 0 then - 1 else if x = 0 then 0 else 1)"

fun fmul :: "fl \<Rightarrow> fl \<Rightarrow> fl" where
  "fmul (Fin x) (Fin y) = rnd (x * y)"
| "fmul NaN _ = NaN"
| "fmul _ NaN = NaN"
| "fmul a b =
     (if fsgn a * fsgn b = 0 then NaN else if fsgn a * fsgn b > 0 then PInf else NInf)"

text \<open>
  True division \<^verbatim>\<open>a / b\<close>. A zero divisor raises \<^verbatim>\<open>ZeroDivisionError\<close> in Python
  (and under Numba's default error model); the callers below test for it before they
  divide, so \<open>fdiv\<close> itself is only ever applied to a non-zero divisor.
\<close>

fun fdiv :: "fl \<Rightarrow> fl \<Rightarrow> fl" where
  "fdiv (Fin x) (Fin y) = rnd (x / y)"
| "fdiv NaN _ = NaN"
| "fdiv _ NaN = NaN"
| "fdiv (Fin x) _ = Fin 0"
| "fdiv a (Fin y) = (if fsgn a * fsgn (Fin y) > 0 then PInf else NInf)"
| "fdiv _ _ = NaN"

text \<open>Ordered comparisons: false as soon as one side is NaN.\<close>

fun flt :: "fl \<Rightarrow> fl \<Rightarrow> bool" where
  "flt (Fin x) (Fin y) = (x < y)"
| "flt NaN _ = False"
| "flt _ NaN = False"
| "flt NInf b = (b \<noteq> NInf)"
| "flt a PInf = (a \<noteq> PInf)"
| "flt _ _ = False"

definition feq :: "fl \<Rightarrow> fl \<Rightarrow> bool" where
  "feq a b = (a \<noteq> NaN \<and> a = b)"

definition fle :: "fl \<Rightarrow> fl \<Rightarrow> bool" where
  "fle a b = (flt a b \<or> feq a b)"

definition fgt :: "fl \<Rightarrow> fl \<Rightarrow> bool" where
  "fgt a b = flt b a"

definition fge :: "fl \<Rightarrow> fl \<Rightarrow> bool" where
  "fge a b = fle b a"

text \<open>
  The builtins \<^verbatim>\<open>min(a, b)\<close> and \<^verbatim>\<open>max(a, b)\<close> keep the first argument unless the
  second is strictly smaller (larger), so a NaN second argument is dropped and a NaN
  first argument is kept.
\<close>

definition fmin :: "fl \<Rightarrow> fl \<Rightarrow> fl" where
  "fmin a b = (if flt b a then b else a)"

definition fmax :: "fl \<Rightarrow> fl \<Rightarrow> fl" where
  "fmax a b = (if fgt b a then b else a)"

text \<open>
  Floor division \<^verbatim>\<open>a // b\<close> of floats for a non-zero divisor, as the runtime
  computes it (\<^verbatim>\<open>float_divmod\<close> of CPython, which Numba follows): the remainder
  of the C function \<^verbatim>\<open>fmod\<close> is exact and has the sign of the dividend; the
  quotient is \<open>(a - mod) / b\<close>, lowered by one when the remainder and the divisor differ
  in sign, and then snapped to the nearest integral value.
\<close>

fun fmod :: "fl \<Rightarrow> fl \<Rightarrow> fl" where
  "fmod (Fin x) (Fin y) =
     Fin (x - y * of_int (if 0 \<le> x / y then \<lfloor>x / y\<rfloor> else \<lceil>x / y\<rceil>))"
| "fmod NaN _ = NaN"
| "fmod _ NaN = NaN"
| "fmod (Fin x) _ = Fin x"
| "fmod _ _ = NaN"

fun ffloor :: "fl \<Rightarrow> fl" where
  "ffloor (Fin x) = Fin (of_int \<lfloor>x\<rfloor>)"
| "ffloor a = a"

definition ffloordiv :: "fl \<Rightarrow> fl \<Rightarrow> fl" where
  "ffloordiv vx wx =
     (let remainder = fmod vx wx;
          quotient = fdiv (fsub vx remainder) wx;
          quotient = (if \<not> feq remainder (Fin 0) \<and> flt wx (Fin 0) \<noteq> flt remainder (Fin 0)
                      then fsub quotient (Fin 1) else quotient)
      in if feq quotient (Fin 0) then Fin 0
         else
           (let floordiv = ffloor quotient
            in if fgt (fsub quotient floordiv) (Fin (1 / 2)) then fadd floordiv (Fin 1)
               else floordiv))"

section \<open>Errors\<close>

datatype error =
    ValueError string
  | IndexError string
  | RejectedOrderError string
  | ZeroDivisionError

section \<open>Numeric helpers\<close>

text \<open>
  Modelled from the spec: the module \<^verbatim>\<open>vectorbt.utils.math_\<close>, from which
  \<^verbatim>\<open>nb.py\<close> imports \<^verbatim>\<open>is_close_nb\<close>, \<^verbatim>\<open>is_close_or_less_nb\<close>,
  \<^verbatim>\<open>is_less_nb\<close> and \<^verbatim>\<open>add_nb\<close>, is not among the sources. Section 4.2 of the
  specification gives \<open>is_close(a,b) = |a - b| \<le> max(rel_tol * max(|a|,|b|), abs_tol)\<close>
  with \<open>rel_tol = 1e-9\<close> and \<open>abs_tol = 1e-12\<close>, says that \<open>is_close_or_less\<close> and
  \<open>is_less\<close> follow the same convention, and that \<open>add(a,b)\<close> zeroes \<open>a + b\<close>
  when \<open>is_close(a + b, 0)\<close>. On a NaN the comparison of the formula is false. On an
  infinite argument the helper answers false as well: scenario S1 of the specification
  fills a buy of size \<open>+inf\<close>, which \<^verbatim>\<open>buy_nb\<close> would ignore as \<open>SizeZero\<close> if
  \<open>is_close(inf, 0)\<close> held.
\<close>

definition rel_tol :: real where
  "rel_tol = 1 / 10 ^ 9"

definition abs_tol :: real where
  "abs_tol = 1 / 10 ^ 12"

fun is_close_nb :: "fl \<Rightarrow> fl \<Rightarrow> bool" where
  "is_close_nb (Fin a) (Fin b) =
     (\<bar>a - b\<bar> \<le> max (rel_tol * max \<bar>a\<bar> \<bar>b\<bar>) abs_tol)"
| "is_close_nb _ _ = False"

definition is_close_or_less_nb :: "fl \<Rightarrow> fl \<Rightarrow> bool" where
  "is_close_or_less_nb a b = (if is_close_nb a b then True else flt a b)"

definition is_less_nb :: "fl \<Rightarrow> fl \<Rightarrow> bool" where
  "is_less_nb a b = (if is_close_nb a b then False else flt a b)"

definition add_nb :: "fl \<Rightarrow> fl \<Rightarrow> fl" where
  "add_nb a b = (if is_close_nb (fadd a b) (Fin 0) then Fin 0 else fadd a b)"

section \<open>Stop price\<close>

text \<open>\<^verbatim>\<open>get_stop_price_nb\<close> (nb.py, lines 2025-2051).\<close>

definition get_stop_price_nb ::
  "fl \<Rightarrow> fl \<Rightarrow> fl \<Rightarrow> fl \<Rightarrow> fl \<Rightarrow> fl \<Rightarrow> bool \<Rightarrow> error + fl" where
  "get_stop_price_nb position_now stop_price stop open' low high hit_below =
     (if flt stop (Fin 0) then Inl (ValueError ''Stop value must be 0 or greater'')
      else if (fgt position_now (Fin 0) \<and> hit_below)
            \<or> (flt position_now (Fin 0) \<and> \<not> hit_below) then
        (let stop_price = fmul stop_price (fsub (Fin 1) stop) in
         if fle open' stop_price then Inr open'
         else if fle low stop_price \<and> fle stop_price high then Inr stop_price
         else Inr NaN)
      else if (flt position_now (Fin 0) \<and> hit_below)
            \<or> (fgt position_now (Fin 0) \<and> \<not> hit_below) then
        (let stop_price = fmul stop_price (fadd (Fin 1) stop) in
         if fle stop_price open' then Inr open'
         else if fle low stop_price \<and> fle stop_price high then Inr stop_price
         else Inr NaN)
      else Inr NaN)"

text \<open>
  The stop-hit rule of section 4.4 of the specification, written from its words: the
  stop level of a long position is \<open>ref_price * (1 - stop)\<close>, that of a short position
  \<open>ref_price * (1 + stop)\<close>; a bar that opens beyond the level fills at the open, a bar
  whose range contains the level fills at the level, any other bar does not hit.
\<close>

definition spec_stop_hit_long :: "fl \<Rightarrow> fl \<Rightarrow> fl \<Rightarrow> fl \<Rightarrow> fl \<Rightarrow> fl" where
  "spec_stop_hit_long ref_price stop open' low high =
     (let sl = fmul ref_price (fsub (Fin 1) stop) in
      if fle open' sl then open'
      else if fle low sl \<and> fle sl high then sl
      else NaN)"

definition spec_stop_hit_short :: "fl \<Rightarrow> fl \<Rightarrow> fl \<Rightarrow> fl \<Rightarrow> fl \<Rightarrow> fl" where
  "spec_stop_hit_short ref_price stop open' low high =
     (let sl = fmul ref_price (fadd (Fin 1) stop) in
      if fle sl open' then open'
      else if fle low sl \<and> fle sl high then sl
      else NaN)"

section \<open>Trade statistics\<close>

datatype TradeDirection = Long | Short

text \<open>\<^verbatim>\<open>get_trade_stats_nb\<close> (nb.py, lines 5899-5913); the result is \<open>(pnl, ret)\<close>.\<close>

definition get_trade_stats_nb ::
  "fl \<Rightarrow> fl \<Rightarrow> fl \<Rightarrow> fl \<Rightarrow> fl \<Rightarrow> TradeDirection \<Rightarrow> error + (fl \<times> fl)" where
  "get_trade_stats_nb size' entry_price entry_fees exit_price exit_fees direction =
     (let entry_val = fmul size' entry_price;
          exit_val = fmul size' exit_price;
          val_diff = add_nb exit_val (fneg entry_val);
          val_diff = (if \<not> feq val_diff (Fin 0) \<and> direction = Short
                      then fmul val_diff (Fin (- 1)) else val_diff);
          pnl = fsub (fsub val_diff entry_fees) exit_fees
      in if feq entry_val (Fin 0) then Inl ZeroDivisionError
         else Inr (pnl, fdiv pnl entry_val))"

text \<open>The sign of a trade direction, as in section 4.8 of the specification.\<close>

fun dir_sign :: "TradeDirection \<Rightarrow> real" where
  "dir_sign Long = 1"
| "dir_sign Short = - 1"

section \<open>Order execution: data\<close>

text \<open>
  Modelled from the spec: the module \<^verbatim>\<open>vectorbt.portfolio.enums\<close> with the
  enumerations and named tuples is not among the sources. The enumerations are those
  of section 3.1 of the specification and the fields those of section 3.2, under the
  names the code uses. The code holds an enumeration as an integer and checks its range;
  the datatypes below hold the valid members only. A field whose name is a keyword or
  a constant of the logic gets a prime.
\<close>

datatype Direction = LongOnly | ShortOnly | Both

datatype SizeType = Amount | Value | Percent | TargetAmount | TargetValue | TargetPercent

datatype OrderSide = Buy | Sell

datatype OrderStatus = Filled | Ignored | Rejected

datatype OrderStatusInfo =
    SizeNaN | PriceNaN | ValPriceNaN | ValueNaN | ValueZeroNeg | SizeZero | NoCashShort
  | NoCashLong | NoOpenPosition | MaxSizeExceeded | RandomEvent | CantCoverFees
  | MinSizeNotReached | PartialFill

datatype PriceAreaVioMode = Ignore | Cap | Error

record PriceArea =
  open' :: fl
  high :: fl
  low :: fl
  close :: fl

record ExecuteOrderState =
  cash :: fl
  position :: fl
  debt :: fl
  free_cash :: fl

record ProcessOrderState = ExecuteOrderState +
  val_price :: fl
  value' :: fl

record Order =
  req_size :: fl
  req_price :: fl
  req_size_type :: SizeType
  req_direction :: Direction
  req_fees :: fl
  req_fixed_fees :: fl
  req_slippage :: fl
  req_min_size :: fl
  req_max_size :: fl
  req_size_granularity :: fl
  req_reject_prob :: fl
  req_price_area_vio_mode :: PriceAreaVioMode
  req_lock_cash :: bool
  req_allow_partial :: bool
  req_raise_reject :: bool
  req_log :: bool

text \<open>
  The result of an order. The code writes \<open>-1\<close> for the side of an order that is not
  filled and for the status information of one that is: \<open>None\<close> here.
\<close>

record OrderResult =
  res_size :: fl
  res_price :: fl
  res_fees :: fl
  res_side :: "OrderSide option"
  res_status :: OrderStatus
  res_status_info :: "OrderStatusInfo option"

text \<open>
  The functions below leave in three ways: they raise, they return the unchanged state
  with an order that is not filled, or they go on with a value. \<open>early\<close> holds the
  three, and \<open>ebind\<close> runs the rest of the function on a value.
\<close>

datatype 'a early = Raise error | NotFilled OrderStatus OrderStatusInfo | Cont 'a

fun ebind :: "'a early \<Rightarrow> ('a \<Rightarrow> 'b early) \<Rightarrow> 'b early" where
  "ebind (Raise e) f = Raise e"
| "ebind (NotFilled s i) f = NotFilled s i"
| "ebind (Cont x) f = f x"

section \<open>Order execution: functions\<close>

text \<open>\<^verbatim>\<open>order_not_filled_nb\<close> (nb.py, lines 78-87).\<close>

definition order_not_filled_nb :: "OrderStatus \<Rightarrow> OrderStatusInfo \<Rightarrow> OrderResult" where
  "order_not_filled_nb status status_info =
     \<lparr>res_size = NaN, res_price = NaN, res_fees = NaN, res_side = None,
      res_status = status, res_status_info = Some status_info\<rparr>"

text \<open>\<^verbatim>\<open>check_adj_price_nb\<close> (nb.py, lines 91-113).\<close>

definition check_adj_price_nb ::
  "fl \<Rightarrow> PriceArea \<Rightarrow> bool \<Rightarrow> PriceAreaVioMode \<Rightarrow> error + fl" where
  "check_adj_price_nb adj_price price_area is_closing_price price_area_vio_mode =
     (if price_area_vio_mode = Ignore then Inr adj_price
      else if fgt adj_price (high price_area) \<and> price_area_vio_mode = Error
        then Inl (ValueError ''Adjusted order price goes above the highest price'')
      else
        (let adj_price = (if fgt adj_price (high price_area) then high price_area
                          else adj_price)
         in if flt adj_price (low price_area) \<and> price_area_vio_mode = Error
           then Inl (ValueError ''Adjusted order price goes below than the lowest price'')
         else
           (let adj_price = (if flt adj_price (low price_area) then low price_area
                             else adj_price)
            in if is_closing_price \<and> \<not> feq adj_price (close price_area)
                  \<and> price_area_vio_mode = Error
              then Inl (ValueError ''Adjusted order price goes beyond the closing price'')
            else if is_closing_price \<and> \<not> feq adj_price (close price_area)
              then Inr (close price_area)
            else Inr adj_price)))"

subsection \<open>Buying\<close>

text \<open>
  \<^verbatim>\<open>buy_nb\<close> (nb.py, lines 117-271) in the order of its source, one definition for
  each commented block. \<open>buy_cash_limit\<close> is "Set cash limit" (lines 139-164).
\<close>

definition buy_cash_limit ::
  "ExecuteOrderState \<Rightarrow> fl \<Rightarrow> fl \<Rightarrow> fl \<Rightarrow> bool \<Rightarrow> fl \<Rightarrow> error + fl" where
  "buy_cash_limit exec_state adj_price fees fixed_fees lock_cash percent =
     (let limited = (\<lambda>cash_limit.
            let cash_limit = fmin cash_limit (cash exec_state)
            in if \<not> isnan percent then fmin cash_limit (fmul percent cash_limit)
               else cash_limit)
      in if lock_cash then
           if fge (position exec_state) (Fin 0) then Inr (limited (free_cash exec_state))
           else
             (let cover_req_cash =
                    fadd (fmul (fmul (fabs (position exec_state)) adj_price)
                      (fadd (Fin 1) fees)) fixed_fees;
                  cover_free_cash =
                    add_nb (fadd (free_cash exec_state) (fmul (Fin 2) (debt exec_state)))
                      (fneg cover_req_cash)
              in if fgt cover_free_cash (Fin 0) then
                   Inr (limited (fadd (free_cash exec_state) (fmul (Fin 2) (debt exec_state))))
                 else if flt cover_free_cash (Fin 0) then
                   if feq (fabs (position exec_state)) (Fin 0) then Inl ZeroDivisionError
                   else
                     (let avg_entry_price = fdiv (debt exec_state) (fabs (position exec_state));
                          divisor = fsub (fmul adj_price (fadd (Fin 1) fees))
                                      (fmul (Fin 2) avg_entry_price)
                      in if feq divisor (Fin 0) then Inl ZeroDivisionError
                         else
                           (let max_short_size =
                                  fdiv (fsub (free_cash exec_state) fixed_fees) divisor
                            in Inr (limited
                                 (fadd (fmul (fmul max_short_size adj_price) (fadd (Fin 1) fees))
                                    fixed_fees))))
                 else Inr (limited (cash exec_state)))
         else Inr (limited (cash exec_state)))"

text \<open>
  Lines 166-189: the rejections for a lack of cash or of a position, the optimal order
  size, the maximum size and the granularity. The result is \<open>adj_size\<close>.
\<close>

definition buy_adj_size ::
  "ExecuteOrderState \<Rightarrow> fl \<Rightarrow> Direction \<Rightarrow> fl \<Rightarrow> fl \<Rightarrow> bool \<Rightarrow> fl \<Rightarrow> fl early" where
  "buy_adj_size exec_state size' direction max_size size_granularity allow_partial cash_limit =
     (if (direction = LongOnly \<or> direction = Both) \<and> feq cash_limit (Fin 0)
        then NotFilled Rejected NoCashLong
      else if (direction = LongOnly \<or> direction = Both) \<and> isinf size' \<and> isinf cash_limit
        then Raise (ValueError ''Attempt to go in long direction infinitely'')
      else if \<not> (direction = LongOnly \<or> direction = Both)
              \<and> feq (position exec_state) (Fin 0)
        then NotFilled Rejected NoOpenPosition
      else
        (let adj_size = (if direction = ShortOnly then fmin (fneg (position exec_state)) size'
                         else size')
         in if fgt adj_size max_size \<and> \<not> allow_partial
              then NotFilled Rejected MaxSizeExceeded
            else
              (let adj_size = (if fgt adj_size max_size then max_size else adj_size)
               in if \<not> isnan size_granularity then
                    if feq size_granularity (Fin 0) then Raise ZeroDivisionError
                    else Cont (fmul (ffloordiv adj_size size_granularity) size_granularity)
                  else Cont adj_size)))"

text \<open>
  Lines 191-198, "Get cash required to complete this order": the result is
  \<open>(total_req_cash, req_fees)\<close>.
\<close>

definition buy_req_cash :: "fl \<Rightarrow> fl \<Rightarrow> fl \<Rightarrow> fl \<Rightarrow> fl \<times> fl" where
  "buy_req_cash adj_size adj_price fees fixed_fees =
     (if isinf adj_size then (PInf, PInf)
      else
        (let req_cash = fmul adj_size adj_price;
             req_fees = fadd (fmul req_cash fees) fixed_fees
         in (fadd req_cash req_fees, req_fees)))"

text \<open>
  Lines 200-225: the size that is bought, which is the largest size the limit buys
  when the limit does not cover the order. The result is
  \<open>(final_size, fees_paid, final_req_cash)\<close>.
\<close>

definition buy_final_size ::
  "fl \<Rightarrow> fl \<Rightarrow> fl \<Rightarrow> fl \<Rightarrow> fl \<Rightarrow> fl \<Rightarrow> (fl \<times> fl \<times> fl) early" where
  "buy_final_size adj_size adj_price fees fixed_fees size_granularity cash_limit =
     (let (total_req_cash, req_fees) = buy_req_cash adj_size adj_price fees fixed_fees
      in if is_close_or_less_nb total_req_cash cash_limit
           then Cont (adj_size, req_fees, total_req_cash)
         else if feq (fadd (Fin 1) fees) (Fin 0) then Raise ZeroDivisionError
         else
           (let max_req_cash = fdiv (add_nb cash_limit (fneg fixed_fees)) (fadd (Fin 1) fees)
            in if fle max_req_cash (Fin 0) then NotFilled Rejected CantCoverFees
               else if feq adj_price (Fin 0) then Raise ZeroDivisionError
               else
                 (let max_acq_size = fdiv max_req_cash adj_price
                  in if \<not> isnan size_granularity then
                       if feq size_granularity (Fin 0) then Raise ZeroDivisionError
                       else
                         (let final_size =
                                fmul (ffloordiv max_acq_size size_granularity) size_granularity;
                              new_req_cash = fmul final_size adj_price;
                              fees_paid = fadd (fmul new_req_cash fees) fixed_fees
                          in Cont (final_size, fees_paid, fadd new_req_cash fees_paid))
                     else Cont (max_acq_size, fsub cash_limit max_req_cash, cash_limit))))"

text \<open>Lines 227-236: zero size, minimum size and partial fill.\<close>

definition buy_size_checks :: "fl \<Rightarrow> fl \<Rightarrow> fl \<Rightarrow> fl \<Rightarrow> bool \<Rightarrow> unit early" where
  "buy_size_checks adj_size final_size size' min_size allow_partial =
     (if is_close_nb adj_size (Fin 0) then NotFilled Ignored SizeZero
      else if is_less_nb final_size min_size then NotFilled Rejected MinSizeNotReached
      else if isfinite size' \<and> is_less_nb final_size size' \<and> \<not> allow_partial
        then NotFilled Rejected PartialFill
      else Cont ())"

text \<open>Lines 238-271: the new balances and the filled order.\<close>

definition buy_update ::
  "ExecuteOrderState \<Rightarrow> fl \<Rightarrow> fl \<Rightarrow> fl \<Rightarrow> fl \<Rightarrow> ExecuteOrderState \<times> OrderResult" where
  "buy_update exec_state adj_price final_size fees_paid final_req_cash =
     (let new_cash = add_nb (cash exec_state) (fneg final_req_cash);
          new_position = add_nb (position exec_state) final_size;
          short_size = (if flt new_position (Fin 0) then final_size
                        else fabs (position exec_state));
          avg_entry_price = fdiv (debt exec_state) (fabs (position exec_state));
          debt_diff = fmul short_size avg_entry_price;
          new_debt = (if flt (position exec_state) (Fin 0)
                      then add_nb (debt exec_state) (fneg debt_diff)
                      else debt exec_state);
          new_free_cash = (if flt (position exec_state) (Fin 0)
                      then add_nb (fadd (free_cash exec_state) (fmul (Fin 2) debt_diff))
                             (fneg final_req_cash)
                      else add_nb (free_cash exec_state) (fneg final_req_cash))
      in (\<lparr>cash = new_cash, position = new_position, debt = new_debt,
           free_cash = new_free_cash\<rparr>,
          \<lparr>res_size = final_size, res_price = adj_price, res_fees = fees_paid,
           res_side = Some Buy, res_status = Filled, res_status_info = None\<rparr>))"

text \<open>
  The leaves of a function on an execution state: an error, the state as it was with an
  order that is not filled, or the result of the fill.
\<close>

fun leave ::
  "ExecuteOrderState \<Rightarrow> (ExecuteOrderState \<times> OrderResult) early
     \<Rightarrow> error + (ExecuteOrderState \<times> OrderResult)" where
  "leave exec_state (Raise e) = Inl e"
| "leave exec_state (NotFilled status status_info) =
     Inr (exec_state, order_not_filled_nb status status_info)"
| "leave exec_state (Cont r) = Inr r"

definition buy_nb ::
  "ExecuteOrderState \<Rightarrow> fl \<Rightarrow> fl \<Rightarrow> Direction \<Rightarrow> fl \<Rightarrow> fl \<Rightarrow> fl \<Rightarrow> fl \<Rightarrow> fl \<Rightarrow> fl
     \<Rightarrow> PriceAreaVioMode \<Rightarrow> bool \<Rightarrow> bool \<Rightarrow> fl \<Rightarrow> PriceArea \<Rightarrow> bool
     \<Rightarrow> error + (ExecuteOrderState \<times> OrderResult)" where
  "buy_nb exec_state size' price direction fees fixed_fees slippage min_size max_size
       size_granularity price_area_vio_mode lock_cash allow_partial percent price_area
       is_closing_price =
     (case check_adj_price_nb (fmul price (fadd (Fin 1) slippage)) price_area
             is_closing_price price_area_vio_mode of
        Inl e \<Rightarrow> Inl e
      | Inr adj_price \<Rightarrow>
          (case buy_cash_limit exec_state adj_price fees fixed_fees lock_cash percent of
             Inl e \<Rightarrow> Inl e
           | Inr cash_limit \<Rightarrow>
               leave exec_state
                 (ebind (buy_adj_size exec_state size' direction max_size size_granularity
                           allow_partial cash_limit)
                    (\<lambda>adj_size.
                       ebind (buy_final_size adj_size adj_price fees fixed_fees
                                size_granularity cash_limit)
                         (\<lambda>(final_size, fees_paid, final_req_cash).
                            ebind (buy_size_checks adj_size final_size size' min_size
                                     allow_partial)
                              (\<lambda>_. Cont (buy_update exec_state adj_price final_size
                                            fees_paid final_req_cash)))))))"

subsection \<open>Selling\<close>

text \<open>
  \<^verbatim>\<open>sell_nb\<close> (nb.py, lines 275-413). \<open>sell_size_limit\<close> is "Get optimal order
  size" with the percentage (lines 297-339); the result is \<open>size_limit\<close>.
\<close>

definition sell_size_limit ::
  "ExecuteOrderState \<Rightarrow> fl \<Rightarrow> fl \<Rightarrow> Direction \<Rightarrow> fl \<Rightarrow> fl \<Rightarrow> bool \<Rightarrow> fl \<Rightarrow> fl early" where
  "sell_size_limit exec_state size' adj_price direction fees fixed_fees lock_cash percent =
     (let apply_percent = (\<lambda>percent size_limit.
            if \<not> isnan percent then fmul percent size_limit else size_limit)
      in if direction = LongOnly then
           Cont (apply_percent percent (fmin (position exec_state) size'))
         else if lock_cash \<or> (isinf size' \<and> \<not> isnan percent) then
           (let long_size = fmax (position exec_state) (Fin 0);
                long_cash = fmul (fmul long_size adj_price) (fsub (Fin 1) fees);
                total_free_cash = add_nb (free_cash exec_state) long_cash
            in ebind
                 (if fle total_free_cash (Fin 0) then
                    if fle (position exec_state) (Fin 0) then NotFilled Rejected NoCashShort
                    else Cont long_size
                  else if feq (fmul adj_price (fadd (Fin 1) fees)) (Fin 0)
                    then Raise ZeroDivisionError
                  else
                    (let max_short_size =
                           fdiv (add_nb total_free_cash (fneg fixed_fees))
                             (fmul adj_price (fadd (Fin 1) fees));
                         max_size_limit = add_nb long_size max_short_size
                     in if fle max_size_limit (Fin 0) then NotFilled Rejected CantCoverFees
                        else Cont max_size_limit))
                 (\<lambda>max_size_limit.
                    if lock_cash then
                      if isinf size' \<and> \<not> isnan percent then
                        Cont (apply_percent NaN
                                (fmin (fmul percent max_size_limit) max_size_limit))
                      else if \<not> isnan percent then
                        Cont (apply_percent NaN (fmin (fmul percent size') max_size_limit))
                      else Cont (apply_percent percent (fmin size' max_size_limit))
                    else Cont (apply_percent percent max_size_limit)))
         else Cont (apply_percent percent size'))"

text \<open>
  Lines 341-367: the maximum size, the infinite short and the missing position, the
  granularity, then zero size, minimum size and partial fill. The result is the
  \<open>size_limit\<close> that is sold.
\<close>

definition sell_size_checks ::
  "ExecuteOrderState \<Rightarrow> fl \<Rightarrow> fl \<Rightarrow> Direction \<Rightarrow> fl \<Rightarrow> fl \<Rightarrow> fl \<Rightarrow> bool \<Rightarrow> fl early" where
  "sell_size_checks exec_state size_limit size' direction min_size max_size size_granularity
       allow_partial =
     (if fgt size_limit max_size \<and> \<not> allow_partial then NotFilled Rejected MaxSizeExceeded
      else
        (let size_limit = (if fgt size_limit max_size then max_size else size_limit)
         in if (direction = ShortOnly \<or> direction = Both) \<and> isinf size_limit
              then Raise (ValueError ''Attempt to go in short direction infinitely'')
            else if \<not> (direction = ShortOnly \<or> direction = Both)
                    \<and> feq (position exec_state) (Fin 0)
              then NotFilled Rejected NoOpenPosition
            else if \<not> isnan size_granularity \<and> feq size_granularity (Fin 0)
              then Raise ZeroDivisionError
            else
              (let size_limit = (if \<not> isnan size_granularity
                     then fmul (ffloordiv size_limit size_granularity) size_granularity
                     else size_limit)
               in if is_close_nb size_limit (Fin 0) then NotFilled Ignored SizeZero
                  else if is_less_nb size_limit min_size
                    then NotFilled Rejected MinSizeNotReached
                  else if isfinite size' \<and> is_less_nb size_limit size' \<and> \<not> allow_partial
                    then NotFilled Rejected PartialFill
                  else Cont size_limit)))"

text \<open>
  Lines 369-378: the acquired cash and the fees. The result is
  \<open>(fees_paid, final_acq_cash)\<close>.
\<close>

definition sell_acq_cash :: "fl \<Rightarrow> fl \<Rightarrow> fl \<Rightarrow> fl \<Rightarrow> (fl \<times> fl) early" where
  "sell_acq_cash size_limit adj_price fees fixed_fees =
     (let acq_cash = fmul size_limit adj_price;
          fees_paid = fadd (fmul acq_cash fees) fixed_fees;
          final_acq_cash = add_nb acq_cash (fneg fees_paid)
      in if flt final_acq_cash (Fin 0) then NotFilled Rejected CantCoverFees
         else Cont (fees_paid, final_acq_cash))"

text \<open>Lines 380-413: the new balances and the filled order.\<close>

definition sell_update ::
  "ExecuteOrderState \<Rightarrow> fl \<Rightarrow> fl \<Rightarrow> fl \<Rightarrow> fl \<Rightarrow> ExecuteOrderState \<times> OrderResult" where
  "sell_update exec_state adj_price size_limit fees_paid final_acq_cash =
     (let new_cash = fadd (cash exec_state) final_acq_cash;
          new_position = add_nb (position exec_state) (fneg size_limit);
          short_size = (if flt (position exec_state) (Fin 0) then size_limit
                        else fabs new_position);
          short_value = fmul short_size adj_price;
          free_cash_diff = add_nb final_acq_cash (fmul (Fin (- 2)) short_value);
          new_debt = (if flt new_position (Fin 0) then fadd (debt exec_state) short_value
                      else debt exec_state);
          new_free_cash = (if flt new_position (Fin 0)
                      then add_nb (free_cash exec_state) free_cash_diff
                      else fadd (free_cash exec_state) final_acq_cash)
      in (\<lparr>cash = new_cash, position = new_position, debt = new_debt,
           free_cash = new_free_cash\<rparr>,
          \<lparr>res_size = size_limit, res_price = adj_price, res_fees = fees_paid,
           res_side = Some Sell, res_status = Filled, res_status_info = None\<rparr>))"

definition sell_nb ::
  "ExecuteOrderState \<Rightarrow> fl \<Rightarrow> fl \<Rightarrow> Direction \<Rightarrow> fl \<Rightarrow> fl \<Rightarrow> fl \<Rightarrow> fl \<Rightarrow> fl \<Rightarrow> fl
     \<Rightarrow> PriceAreaVioMode \<Rightarrow> bool \<Rightarrow> bool \<Rightarrow> fl \<Rightarrow> PriceArea \<Rightarrow> bool
     \<Rightarrow> error + (ExecuteOrderState \<times> OrderResult)" where
  "sell_nb exec_state size' price direction fees fixed_fees slippage min_size max_size
       size_granularity price_area_vio_mode lock_cash allow_partial percent price_area
       is_closing_price =
     (case check_adj_price_nb (fmul price (fsub (Fin 1) slippage)) price_area
             is_closing_price price_area_vio_mode of
        Inl e \<Rightarrow> Inl e
      | Inr adj_price \<Rightarrow>
          leave exec_state
            (ebind (sell_size_limit exec_state size' adj_price direction fees fixed_fees
                      lock_cash percent)
               (\<lambda>size_limit.
                  ebind (sell_size_checks exec_state size_limit size' direction min_size
                           max_size size_granularity allow_partial)
                    (\<lambda>size_limit.
                       ebind (sell_acq_cash size_limit adj_price fees fixed_fees)
                         (\<lambda>(fees_paid, final_acq_cash).
                            Cont (sell_update exec_state adj_price size_limit fees_paid
                                    final_acq_cash))))))"

subsection \<open>Executing an order\<close>

text \<open>
  \<^verbatim>\<open>execute_order_nb\<close> (nb.py, lines 417-613), block by block. \<open>snap_zero\<close> is
  the step repeated under "numerical stability" (lines 431-449).
\<close>

definition snap_zero :: "fl \<Rightarrow> fl" where
  "snap_zero x = (if is_close_nb x (Fin 0) then Fin 0 else x)"

text \<open>
  "Pre-fill execution state for convenience" (lines 451-457): the four balances after
  the snap to zero.
\<close>

definition stabilised :: "ProcessOrderState \<Rightarrow> ExecuteOrderState" where
  "stabilised state =
     \<lparr>cash = snap_zero (cash state), position = snap_zero (position state),
      debt = snap_zero (debt state), free_cash = snap_zero (free_cash state)\<rparr>"

text \<open>"Check price area" (lines 459-467).\<close>

definition check_price_area :: "PriceArea \<Rightarrow> error option" where
  "check_price_area price_area =
     (if isinf (open' price_area) \<or> fle (open' price_area) (Fin 0) then
        Some (ValueError
          ''price_area.open must be either NaN, or finite and greater than 0'')
      else if isinf (high price_area) \<or> fle (high price_area) (Fin 0) then
        Some (ValueError
          ''price_area.high must be either NaN, or finite and greater than 0'')
      else if isinf (low price_area) \<or> fle (low price_area) (Fin 0) then
        Some (ValueError
          ''price_area.low must be either NaN, or finite and greater than 0'')
      else if isinf (close price_area) \<or> fle (close price_area) (Fin 0) then
        Some (ValueError
          ''price_area.close must be either NaN, or finite and greater than 0'')
      else None)"

text \<open>"Resolve price" (lines 469-477): the price and \<open>is_closing_price\<close>.\<close>

definition resolve_price :: "Order \<Rightarrow> PriceArea \<Rightarrow> fl \<times> bool" where
  "resolve_price order price_area =
     (if isinf (req_price order) then
        if fgt (req_price order) (Fin 0) then (close price_area, True)
        else (open' price_area, False)
      else (req_price order, False))"

text \<open>"Check execution state" (lines 485-493), on the state after the snap to zero.\<close>

definition check_exec_state :: "ExecuteOrderState \<Rightarrow> error option" where
  "check_exec_state exec_state =
     (if isnan (cash exec_state) \<or> flt (cash exec_state) (Fin 0) then
        Some (ValueError ''state.cash cannot be NaN and must be greater than 0'')
      else if \<not> isfinite (position exec_state) then
        Some (ValueError ''state.position must be finite'')
      else if \<not> isfinite (debt exec_state) \<or> flt (debt exec_state) (Fin 0) then
        Some (ValueError ''state.debt must be finite and 0 or greater'')
      else if isnan (free_cash exec_state) then
        Some (ValueError ''state.free_cash cannot be NaN'')
      else None)"

text \<open>
  "Check order" (lines 495-519). The two range checks of \<open>size_type\<close> and
  \<open>direction\<close> (lines 498-501) cannot fail on the datatypes and are left out.
\<close>

definition check_order :: "Order \<Rightarrow> fl \<Rightarrow> fl \<Rightarrow> error option" where
  "check_order order order_price position_now =
     (if \<not> isfinite order_price \<or> fle order_price (Fin 0) then
        Some (ValueError ''order.price must be finite and greater than 0'')
      else if req_direction order = LongOnly \<and> flt position_now (Fin 0) then
        Some (ValueError
          ''state.position is negative but order.direction is Direction.LongOnly'')
      else if req_direction order = ShortOnly \<and> fgt position_now (Fin 0) then
        Some (ValueError
          ''state.position is positive but order.direction is Direction.ShortOnly'')
      else if \<not> isfinite (req_fees order) then
        Some (ValueError ''order.fees must be finite'')
      else if \<not> isfinite (req_fixed_fees order) then
        Some (ValueError ''order.fixed_fees must be finite'')
      else if \<not> isfinite (req_slippage order) \<or> flt (req_slippage order) (Fin 0) then
        Some (ValueError ''order.slippage must be finite and 0 or greater'')
      else if \<not> isfinite (req_min_size order) \<or> flt (req_min_size order) (Fin 0) then
        Some (ValueError ''order.min_size must be finite and 0 or greater'')
      else if isnan (req_max_size order) \<or> fle (req_max_size order) (Fin 0) then
        Some (ValueError ''order.max_size must be greater than 0'')
      else if isinf (req_size_granularity order) \<or> fle (req_size_granularity order) (Fin 0) then
        Some (ValueError
          ''order.size_granularity must be either NaN, or finite and greater than 0'')
      else if \<not> isfinite (req_reject_prob order) \<or> flt (req_reject_prob order) (Fin 0)
              \<or> fgt (req_reject_prob order) (Fin 1) then
        Some (ValueError ''order.reject_prob must be between 0 and 1'')
      else None)"

text \<open>
  The normalisation of the size (lines 521-568), one definition for each \<^verbatim>\<open>if\<close> on
  \<^verbatim>\<open>order_size_type\<close>; each takes and returns \<open>(order_size, order_size_type)\<close>.
\<close>

definition norm_target_percent :: "fl \<Rightarrow> fl \<times> SizeType \<Rightarrow> (fl \<times> SizeType) early" where
  "norm_target_percent value_now = (\<lambda>(order_size, order_size_type).
     if order_size_type = TargetPercent then
       if isnan value_now then NotFilled Ignored ValueNaN
       else if fle value_now (Fin 0) then NotFilled Rejected ValueZeroNeg
       else Cont (fmul order_size value_now, TargetValue)
     else Cont (order_size, order_size_type))"

definition norm_value :: "fl \<Rightarrow> fl \<times> SizeType \<Rightarrow> (fl \<times> SizeType) early" where
  "norm_value val_price_now = (\<lambda>(order_size, order_size_type).
     if order_size_type = Value \<or> order_size_type = TargetValue then
       if isinf val_price_now \<or> fle val_price_now (Fin 0) then
         Raise (ValueError ''val_price_now must be finite and greater than 0'')
       else if isnan val_price_now then NotFilled Ignored ValPriceNaN
       else Cont (fdiv order_size val_price_now,
                  if order_size_type = Value then Amount else TargetAmount)
     else Cont (order_size, order_size_type))"

definition norm_target_amount :: "fl \<Rightarrow> fl \<times> SizeType \<Rightarrow> fl \<times> SizeType" where
  "norm_target_amount position_now = (\<lambda>(order_size, order_size_type).
     if order_size_type = TargetAmount then (fsub order_size position_now, Amount)
     else (order_size, order_size_type))"

definition norm_amount :: "Direction \<Rightarrow> fl \<times> SizeType \<Rightarrow> fl \<times> SizeType" where
  "norm_amount direction = (\<lambda>(order_size, order_size_type).
     if order_size_type = Amount \<and> (direction = ShortOnly \<or> direction = Both)
        \<and> flt order_size (Fin 0) \<and> isinf order_size
     then (Fin (- 1), Percent)
     else (order_size, order_size_type))"

text \<open>
  \<^verbatim>\<open>np.sign(order_size) * np.inf\<close>: the sign of zero is zero, and zero times
  infinity is NaN.
\<close>

definition sign_inf :: "fl \<Rightarrow> fl" where
  "sign_inf x = (if isnan x then NaN else fmul (Fin (real_of_int (fsgn x))) PInf)"

text \<open>Lines 563-568: the result is \<open>(order_size, percent)\<close>.\<close>

definition norm_percent :: "fl \<times> SizeType \<Rightarrow> fl \<times> fl" where
  "norm_percent = (\<lambda>(order_size, order_size_type).
     if order_size_type = Percent then (sign_inf order_size, fabs order_size)
     else (order_size, NaN))"

definition resolve_size :: "Order \<Rightarrow> fl \<Rightarrow> fl \<Rightarrow> fl \<Rightarrow> (fl \<times> fl) early" where
  "resolve_size order position_now val_price_now value_now =
     (let order_size = (if req_direction order = ShortOnly then fmul (req_size order) (Fin (- 1))
                        else req_size order)
      in ebind (norm_target_percent value_now (order_size, req_size_type order))
           (\<lambda>st. ebind (norm_value val_price_now st)
              (\<lambda>st. Cont (norm_percent
                 (norm_amount (req_direction order) (norm_target_amount position_now st))))))"

text \<open>
  The random rejection (lines 609-613). Its first argument is the number that
  \<^verbatim>\<open>np.random.uniform(0, 1)\<close> draws, which the code asks for only when
  \<open>reject_prob\<close> is positive; the last is what \<^verbatim>\<open>buy_nb\<close> or \<^verbatim>\<open>sell_nb\<close>
  returned.
\<close>

definition random_reject ::
  "real \<Rightarrow> Order \<Rightarrow> ExecuteOrderState \<Rightarrow> error + (ExecuteOrderState \<times> OrderResult)
     \<Rightarrow> error + (ExecuteOrderState \<times> OrderResult)" where
  "random_reject u order exec_state res =
     (case res of
        Inl e \<Rightarrow> Inl e
      | Inr (new_exec_state, order_result) \<Rightarrow>
          if fgt (req_reject_prob order) (Fin 0) \<and> flt (Fin u) (req_reject_prob order)
          then Inr (exec_state, order_not_filled_nb Rejected RandomEvent)
          else Inr (new_exec_state, order_result))"

text \<open>The function itself; \<open>u\<close> is the random number of \<open>random_reject\<close>.\<close>

definition execute_order_nb ::
  "real \<Rightarrow> ProcessOrderState \<Rightarrow> Order \<Rightarrow> PriceArea
     \<Rightarrow> error + (ExecuteOrderState \<times> OrderResult)" where
  "execute_order_nb u state order price_area =
     (let val_price_now = snap_zero (val_price state);
          value_now = snap_zero (value' state);
          exec_state = stabilised state
      in case check_price_area price_area of
           Some e \<Rightarrow> Inl e
         | None \<Rightarrow>
             (let (order_price, is_closing_price) = resolve_price order price_area
              in if isnan (req_size order)
                   then Inr (exec_state, order_not_filled_nb Ignored SizeNaN)
                 else if isnan order_price
                   then Inr (exec_state, order_not_filled_nb Ignored PriceNaN)
                 else
                   (case check_exec_state exec_state of
                      Some e \<Rightarrow> Inl e
                    | None \<Rightarrow>
                        (case check_order order order_price (position exec_state) of
                           Some e \<Rightarrow> Inl e
                         | None \<Rightarrow>
                             (case resolve_size order (position exec_state) val_price_now
                                     value_now of
                                Raise e \<Rightarrow> Inl e
                              | NotFilled status status_info \<Rightarrow>
                                  Inr (exec_state, order_not_filled_nb status status_info)
                              | Cont (order_size, percent) \<Rightarrow>
                                  random_reject u order exec_state
                                    (if fgt order_size (Fin 0) then
                                       buy_nb exec_state order_size order_price
                                         (req_direction order) (req_fees order)
                                         (req_fixed_fees order) (req_slippage order)
                                         (req_min_size order) (req_max_size order)
                                         (req_size_granularity order)
                                         (req_price_area_vio_mode order)
                                         (req_lock_cash order) (req_allow_partial order)
                                         percent price_area is_closing_price
                                     else
                                       sell_nb exec_state (fneg order_size) order_price
                                         (req_direction order) (req_fees order)
                                         (req_fixed_fees order) (req_slippage order)
                                         (req_min_size order) (req_max_size order)
                                         (req_size_granularity order)
                                         (req_price_area_vio_mode order)
                                         (req_lock_cash order) (req_allow_partial order)
                                         percent price_area is_closing_price))))))"

subsection \<open>Default arguments\<close>

text \<open>
  The order that \<^verbatim>\<open>order_nb\<close> (nb.py, lines 836-872) builds from its default
  arguments, and the price area without prices that \<^verbatim>\<open>execute_order_nb\<close> takes by
  default. Modelled from the spec: the constant \<^verbatim>\<open>NoPriceArea\<close> comes from the
  module \<^verbatim>\<open>vectorbt.portfolio.enums\<close>, which is not among the sources; by section
  3.2 of the specification every field of a price area may be NaN.
\<close>

definition order_nb :: Order where
  "order_nb =
     \<lparr>req_size = NaN, req_price = PInf, req_size_type = Amount, req_direction = Both,
      req_fees = Fin 0, req_fixed_fees = Fin 0, req_slippage = Fin 0, req_min_size = Fin 0,
      req_max_size = PInf, req_size_granularity = NaN, req_reject_prob = Fin 0,
      req_price_area_vio_mode = Ignore, req_lock_cash = False, req_allow_partial = True,
      req_raise_reject = False, req_log = False\<rparr>"

definition NoPriceArea :: PriceArea where
  "NoPriceArea = \<lparr>open' = NaN, high = NaN, low = NaN, close = NaN\<rparr>"

subsection \<open>The side of an order as a sign\<close>

text \<open>
  Property 1 of section 8 of the specification counts a buy as \<open>+1\<close> and a sell as
  \<open>-1\<close>.
\<close>

fun side_sign :: "OrderSide option \<Rightarrow> real" where
  "side_sign (Some Buy) = 1"
| "side_sign (Some Sell) = - 1"
| "side_sign None = 0"

section \<open>Processing an order\<close>

subsection \<open>Record buffers\<close>

text \<open>
  The buffers of order and log records are two-dimensional arrays indexed by
  \<open>[record, col]\<close> and allocated before the run; a cell that was never written is
  \<open>None\<close>. Their first dimension, \<open>shape[0]\<close> in the code, is the capacity
  \<open>max_orders\<close> or \<open>max_logs\<close> of a column. An index outside an array raises
  \<^verbatim>\<open>IndexError\<close> as in Python, and a negative index counts from the end.
\<close>

record 'a array2d =
  nrows :: nat
  ncols :: nat
  cell :: "nat \<Rightarrow> nat \<Rightarrow> 'a option"

definition py_index :: "nat \<Rightarrow> int \<Rightarrow> nat option" where
  "py_index n i =
     (if 0 \<le> i \<and> i < int n then Some (nat i)
      else if - int n \<le> i \<and> i < 0 then Some (nat (i + int n))
      else None)"

definition get1d :: "'a list \<Rightarrow> int \<Rightarrow> error + 'a" where
  "get1d xs i =
     (case py_index (length xs) i of
        None \<Rightarrow> Inl (IndexError ''index is out of bounds'')
      | Some k \<Rightarrow> Inr (xs ! k))"

definition set1d :: "'a list \<Rightarrow> int \<Rightarrow> 'a \<Rightarrow> error + 'a list" where
  "set1d xs i v =
     (case py_index (length xs) i of
        None \<Rightarrow> Inl (IndexError ''index is out of bounds'')
      | Some k \<Rightarrow> Inr (xs[k := v]))"

definition set2d :: "'a array2d \<Rightarrow> int \<Rightarrow> int \<Rightarrow> 'a \<Rightarrow> error + 'a array2d" where
  "set2d arr r c v =
     (case (py_index (nrows arr) r, py_index (ncols arr) c) of
        (Some k, Some l) \<Rightarrow>
          Inr (arr\<lparr>cell := (\<lambda>k' l'. if k' = k \<and> l' = l then Some v else cell arr k' l')\<rparr>)
      | _ \<Rightarrow> Inl (IndexError ''index is out of bounds''))"

text \<open>
  An order record has the fields \<open>id\<close>, \<open>col\<close>, \<open>idx\<close>, \<open>size\<close>, \<open>price\<close>,
  \<open>fees\<close> and \<open>side\<close>. A log record holds the fields that
  \<^verbatim>\<open>fill_log_record_nb\<close> writes: those of the price area, of the state, of the
  order, of the new state and of the result are kept together as the values they are
  copied from.
\<close>

record order_record =
  or_id :: int
  or_col :: int
  or_idx :: int
  or_size :: fl
  or_price :: fl
  or_fees :: fl
  or_side :: "OrderSide option"

record log_record =
  lr_id :: int
  lr_group :: int
  lr_col :: int
  lr_idx :: int
  lr_price_area :: PriceArea
  lr_state :: ProcessOrderState
  lr_order :: Order
  lr_new_state :: ProcessOrderState
  lr_order_result :: OrderResult
  lr_order_id :: int

subsection \<open>Functions\<close>

text \<open>\<^verbatim>\<open>fill_log_record_nb\<close> (nb.py, lines 617-672).\<close>

definition fill_log_record_nb ::
  "log_record array2d \<Rightarrow> int \<Rightarrow> int \<Rightarrow> int \<Rightarrow> int \<Rightarrow> PriceArea \<Rightarrow> ProcessOrderState
     \<Rightarrow> Order \<Rightarrow> ProcessOrderState \<Rightarrow> OrderResult \<Rightarrow> int \<Rightarrow> error + log_record array2d" where
  "fill_log_record_nb records r group' col i price_area state order new_state order_result
       order_id =
     set2d records r col
       \<lparr>lr_id = r, lr_group = group', lr_col = col, lr_idx = i, lr_price_area = price_area,
        lr_state = state, lr_order = order, lr_new_state = new_state,
        lr_order_result = order_result, lr_order_id = order_id\<rparr>"

text \<open>\<^verbatim>\<open>fill_order_record_nb\<close> (nb.py, lines 675-689).\<close>

definition fill_order_record_nb ::
  "order_record array2d \<Rightarrow> int \<Rightarrow> int \<Rightarrow> int \<Rightarrow> OrderResult \<Rightarrow> error + order_record array2d" where
  "fill_order_record_nb records r col i order_result =
     set2d records r col
       \<lparr>or_id = r, or_col = col, or_idx = i, or_size = res_size order_result,
        or_price = res_price order_result, or_fees = res_fees order_result,
        or_side = res_side order_result\<rparr>"

text \<open>
  \<^verbatim>\<open>raise_rejected_order_nb\<close> (nb.py, lines 692-724): the error that it raises.
\<close>

definition raise_rejected_order_nb :: "OrderResult \<Rightarrow> error" where
  "raise_rejected_order_nb order_result =
     (case res_status_info order_result of
        Some SizeNaN \<Rightarrow> RejectedOrderError ''Size is NaN''
      | Some PriceNaN \<Rightarrow> RejectedOrderError ''Price is NaN''
      | Some ValPriceNaN \<Rightarrow> RejectedOrderError ''Asset valuation price is NaN''
      | Some ValueNaN \<Rightarrow> RejectedOrderError ''Asset/group value is NaN''
      | Some ValueZeroNeg \<Rightarrow> RejectedOrderError ''Asset/group value is zero or negative''
      | Some SizeZero \<Rightarrow> RejectedOrderError ''Size is zero''
      | Some NoCashShort \<Rightarrow> RejectedOrderError ''Not enough cash to short''
      | Some NoCashLong \<Rightarrow> RejectedOrderError ''Not enough cash to long''
      | Some NoOpenPosition \<Rightarrow> RejectedOrderError ''No open position to reduce/close''
      | Some MaxSizeExceeded \<Rightarrow> RejectedOrderError ''Size is greater than maximum allowed''
      | Some RandomEvent \<Rightarrow> RejectedOrderError ''Random event happened''
      | Some CantCoverFees \<Rightarrow> RejectedOrderError ''Not enough cash to cover fees''
      | Some MinSizeNotReached \<Rightarrow>
          RejectedOrderError ''Final size is less than minimum allowed''
      | Some PartialFill \<Rightarrow> RejectedOrderError ''Final size is less than requested''
      | None \<Rightarrow> RejectedOrderError [])"

text \<open>
  \<^verbatim>\<open>update_value_nb\<close> (nb.py, lines 727-747): the result is
  \<open>(val_price_now, value_now)\<close>.
\<close>

definition update_value_nb :: "fl \<Rightarrow> fl \<Rightarrow> fl \<Rightarrow> fl \<Rightarrow> fl \<Rightarrow> fl \<Rightarrow> fl \<Rightarrow> fl \<times> fl" where
  "update_value_nb cash_before cash_now position_before position_now val_price_before
       price_now value_before =
     (let val_price_now = price_now;
          cash_flow = fsub cash_now cash_before;
          asset_value_before = (if \<not> feq position_before (Fin 0)
                                then fmul position_before val_price_before else Fin 0);
          asset_value_now = (if \<not> feq position_now (Fin 0)
                             then fmul position_now val_price_now else Fin 0);
          asset_value_diff = fsub asset_value_now asset_value_before;
          value_now = fadd (fadd value_before cash_flow) asset_value_diff
      in (val_price_now, value_now))"

text \<open>
  \<^verbatim>\<open>process_order_nb\<close> (nb.py, lines 750-833). "Fill order record" (lines
  793-804) and "Fill log record" (lines 815-831) are definitions of their own; each
  returns the buffer and the array of the last written indices as the code leaves them.
\<close>

definition append_order_record ::
  "nat \<Rightarrow> nat \<Rightarrow> OrderResult \<Rightarrow> order_record array2d \<Rightarrow> int list
     \<Rightarrow> error + (order_record array2d \<times> int list)" where
  "append_order_record col i order_result order_records last_oidx =
     (if res_status order_result = Filled \<and> nrows order_records > 0 then
        case get1d last_oidx (int col) of
          Inl e \<Rightarrow> Inl e
        | Inr last_idx \<Rightarrow>
            if last_idx \<ge> int (nrows order_records) - 1 then
              Inl (IndexError ''order_records index out of range. Set a higher max_orders.'')
            else
              (case fill_order_record_nb order_records (last_idx + 1) (int col) (int i)
                      order_result of
                 Inl e \<Rightarrow> Inl e
               | Inr order_records \<Rightarrow>
                   (case set1d last_oidx (int col) (last_idx + 1) of
                      Inl e \<Rightarrow> Inl e
                    | Inr last_oidx \<Rightarrow> Inr (order_records, last_oidx)))
      else Inr (order_records, last_oidx))"

definition append_log_record ::
  "nat \<Rightarrow> nat \<Rightarrow> nat \<Rightarrow> PriceArea \<Rightarrow> ProcessOrderState \<Rightarrow> Order \<Rightarrow> ProcessOrderState
     \<Rightarrow> OrderResult \<Rightarrow> int list \<Rightarrow> log_record array2d \<Rightarrow> int list
     \<Rightarrow> error + (log_record array2d \<times> int list)" where
  "append_log_record group' col i price_area state order new_state order_result last_oidx
       log_records last_lidx =
     (if req_log order \<and> nrows log_records > 0 then
        case get1d last_lidx (int col) of
          Inl e \<Rightarrow> Inl e
        | Inr last_idx \<Rightarrow>
            if last_idx \<ge> int (nrows log_records) - 1 then
              Inl (IndexError ''log_records index out of range. Set a higher max_logs.'')
            else
              (case (if res_status order_result = Filled then get1d last_oidx (int col)
                     else Inr (- 1)) of
                 Inl e \<Rightarrow> Inl e
               | Inr order_id \<Rightarrow>
                   (case fill_log_record_nb log_records (last_idx + 1) (int group') (int col)
                           (int i) price_area state order new_state order_result order_id of
                      Inl e \<Rightarrow> Inl e
                    | Inr log_records \<Rightarrow>
                        (case set1d last_lidx (int col) (last_idx + 1) of
                           Inl e \<Rightarrow> Inl e
                         | Inr last_lidx \<Rightarrow> Inr (log_records, last_lidx))))
      else Inr (log_records, last_lidx))"

definition process_order_nb ::
  "real \<Rightarrow> nat \<Rightarrow> nat \<Rightarrow> nat \<Rightarrow> PriceArea \<Rightarrow> ProcessOrderState \<Rightarrow> bool \<Rightarrow> Order
     \<Rightarrow> order_record array2d \<Rightarrow> int list \<Rightarrow> log_record array2d \<Rightarrow> int list
     \<Rightarrow> error + (OrderResult \<times> ProcessOrderState \<times> order_record array2d \<times> int list
                  \<times> log_record array2d \<times> int list)" where
  "process_order_nb u group' col i price_area state update_value order order_records last_oidx
       log_records last_lidx =
     (case execute_order_nb u state order price_area of
        Inl e \<Rightarrow> Inl e
      | Inr (exec_state, order_result) \<Rightarrow>
          if res_status order_result = Rejected \<and> req_raise_reject order
            then Inl (raise_rejected_order_nb order_result)
          else
            (let (new_val_price, new_value) =
                   (if res_status order_result = Filled \<and> update_value then
                      update_value_nb (cash state) (cash exec_state) (position state)
                        (position exec_state) (val_price state) (res_price order_result)
                        (value' state)
                    else (val_price state, value' state))
             in case append_order_record col i order_result order_records last_oidx of
                  Inl e \<Rightarrow> Inl e
                | Inr (order_records, last_oidx) \<Rightarrow>
                    (let new_state =
                           \<lparr>cash = cash exec_state, position = position exec_state,
                            debt = debt exec_state, free_cash = free_cash exec_state,
                            val_price = new_val_price, value' = new_value\<rparr>
                     in case append_log_record group' col i price_area state order new_state
                               order_result last_oidx log_records last_lidx of
                          Inl e \<Rightarrow> Inl e
                        | Inr (log_records, last_lidx) \<Rightarrow>
                            Inr (order_result, new_state, order_records, last_oidx,
                                 log_records, last_lidx))))"

section \<open>Trade records\<close>

text \<open>
  Modelled from the spec: the enumeration \<^verbatim>\<open>TradeStatus\<close> and the record type
  \<^verbatim>\<open>trade_dt\<close> of \<^verbatim>\<open>vectorbt.portfolio.enums\<close> are not among the sources. The
  members are those of section 3.1 of the specification and the fields those of the
  trade record of section 3.2, the layout that entry trades, exit trades and positions
  share.
\<close>

datatype TradeStatus = Open | Closed

record trade_record =
  tr_id :: int
  tr_col :: int
  tr_size :: fl
  tr_entry_idx :: int
  tr_entry_price :: fl
  tr_entry_fees :: fl
  tr_exit_idx :: int
  tr_exit_price :: fl
  tr_exit_fees :: fl
  tr_pnl :: fl
  tr_return :: fl
  tr_direction :: TradeDirection
  tr_status :: TradeStatus
  tr_parent_id :: int

text \<open>
  \<^verbatim>\<open>fill_trade_record_nb\<close> (nb.py, lines 5917-5955), which \<^verbatim>\<open>get_entry_trades_nb\<close>
  and \<^verbatim>\<open>get_exit_trades_nb\<close> call for every row they write. The array of records is a
  list, and the function returns the array with row \<open>r\<close> written.
\<close>

definition fill_trade_record_nb ::
  "trade_record list \<Rightarrow> int \<Rightarrow> int \<Rightarrow> fl \<Rightarrow> int \<Rightarrow> fl \<Rightarrow> fl \<Rightarrow> int \<Rightarrow> fl \<Rightarrow> fl \<Rightarrow>
   TradeDirection \<Rightarrow> TradeStatus \<Rightarrow> int \<Rightarrow> error + trade_record list" where
  "fill_trade_record_nb new_records r col size' entry_idx entry_price entry_fees exit_idx
     exit_price exit_fees direction status parent_id =
     (case get_trade_stats_nb size' entry_price entry_fees exit_price exit_fees direction of
        Inl e \<Rightarrow> Inl e
      | Inr (pnl, ret) \<Rightarrow>
          set1d new_records r
            \<lparr>tr_id = r, tr_col = col, tr_size = size', tr_entry_idx = entry_idx,
             tr_entry_price = entry_price, tr_entry_fees = entry_fees, tr_exit_idx = exit_idx,
             tr_exit_price = exit_price, tr_exit_fees = exit_fees, tr_pnl = pnl,
             tr_return = ret, tr_direction = direction, tr_status = status,
             tr_parent_id = parent_id\<rparr>)"

text \<open>
  \<^verbatim>\<open>np.sum\<close> over a one-dimensional array, as Numba compiles it: the elements are
  added one after the other to an accumulator that starts at zero.
\<close>

definition np_sum :: "fl list \<Rightarrow> fl" where
  "np_sum xs = foldl fadd (Fin 0) xs"

text \<open>
  \<^verbatim>\<open>fill_position_record_nb\<close> (nb.py, lines 6583-6619), which \<^verbatim>\<open>get_positions_nb\<close>
  calls for a position that aggregates several trades.
\<close>

definition fill_position_record_nb ::
  "trade_record list \<Rightarrow> int \<Rightarrow> trade_record list \<Rightarrow> error + trade_record list" where
  "fill_position_record_nb new_records r trade_records =
     (case (get1d trade_records 0, get1d trade_records (- 1)) of
        (Inr first_record, Inr last_record) \<Rightarrow>
          (let col = tr_col first_record;
               size' = np_sum (map tr_size trade_records);
               entry_idx = tr_entry_idx first_record
           in if feq size' (Fin 0) then Inl ZeroDivisionError
              else
                (let entry_price =
                       fdiv (np_sum (map (\<lambda>t. fmul (tr_size t) (tr_entry_price t))
                                      trade_records)) size';
                     entry_fees = np_sum (map tr_entry_fees trade_records);
                     exit_idx = tr_exit_idx last_record;
                     exit_price =
                       fdiv (np_sum (map (\<lambda>t. fmul (tr_size t) (tr_exit_price t))
                                      trade_records)) size';
                     exit_fees = np_sum (map tr_exit_fees trade_records);
                     direction = tr_direction last_record;
                     status = tr_status last_record
                 in case get_trade_stats_nb size' entry_price entry_fees exit_price exit_fees
                           direction of
                      Inl e \<Rightarrow> Inl e
                    | Inr (pnl, ret) \<Rightarrow>
                        set1d new_records r
                          \<lparr>tr_id = r, tr_col = col, tr_size = size', tr_entry_idx = entry_idx,
                           tr_entry_price = entry_price, tr_entry_fees = entry_fees,
                           tr_exit_idx = exit_idx, tr_exit_price = exit_price,
                           tr_exit_fees = exit_fees, tr_pnl = pnl, tr_return = ret,
                           tr_direction = direction, tr_status = status,
                           tr_parent_id = r\<rparr>))
      | _ \<Rightarrow> Inl (IndexError ''index is out of bounds''))"

text \<open>
  The statistics of a record: \<^verbatim>\<open>get_trade_stats_nb\<close> on the size, the prices, the fees
  and the direction that the record holds.
\<close>

definition stats_of_record :: "trade_record \<Rightarrow> error + (fl \<times> fl)" where
  "stats_of_record t =
     get_trade_stats_nb (tr_size t) (tr_entry_price t) (tr_entry_fees t) (tr_exit_price t)
       (tr_exit_fees t) (tr_direction t)"

text \<open>
  The formulas of section 4.8 of the specification, written from its words over the
  real numbers: \<open>pnl = (exit - entry) * size * dir_sign - entry_fees - exit_fees\<close> and
  \<open>return = pnl / (entry_price * size)\<close>.
\<close>

definition spec_pnl :: "real \<Rightarrow> real \<Rightarrow> real \<Rightarrow> real \<Rightarrow> real \<Rightarrow> TradeDirection \<Rightarrow> real" where
  "spec_pnl size' entry_price entry_fees exit_price exit_fees direction =
     (exit_price - entry_price) * size' * dir_sign direction - entry_fees - exit_fees"

definition spec_return :: "real \<Rightarrow> real \<Rightarrow> real \<Rightarrow> real" where
  "spec_return pnl entry_price size' = pnl / (entry_price * size')"

section \<open>Derived series\<close>

text \<open>
  The functions of this section loop over the columns and, for each column, over the
  order records of the column in the order of the column map. The embedding gives the
  body of the loop over the columns: one column of a two-dimensional array is a list over
  the bars, and the order records of the column are the list that the column map selects.
  Modelled from the spec: \<^verbatim>\<open>flex_select_auto_nb\<close> of \<^verbatim>\<open>vectorbt.base.indexing\<close> is
  not among the sources; by section 4.1 of the specification it looks a parameter up per
  cell, and the value it returns for the column (\<open>init_position\<close>, \<open>init_cash\<close>) is an
  argument here.
\<close>

subsection \<open>Asset flow and assets\<close>

text \<open>\<^verbatim>\<open>get_long_size_nb\<close> and \<^verbatim>\<open>get_short_size_nb\<close> (nb.py, lines 6867-6888).\<close>

definition get_long_size_nb :: "fl \<Rightarrow> fl \<Rightarrow> fl" where
  "get_long_size_nb position_before position_now =
     (if fle position_before (Fin 0) \<and> fle position_now (Fin 0) then Fin 0
      else if fge position_before (Fin 0) \<and> flt position_now (Fin 0)
        then fneg position_before
      else if flt position_before (Fin 0) \<and> fge position_now (Fin 0) then position_now
      else add_nb position_now (fneg position_before))"

definition get_short_size_nb :: "fl \<Rightarrow> fl \<Rightarrow> fl" where
  "get_short_size_nb position_before position_now =
     (if fge position_before (Fin 0) \<and> fge position_now (Fin 0) then Fin 0
      else if fge position_before (Fin 0) \<and> flt position_now (Fin 0)
        then fneg position_now
      else if flt position_before (Fin 0) \<and> fge position_now (Fin 0) then position_before
      else add_nb position_before (fneg position_now))"

text \<open>
  The loop over the records of a column in \<^verbatim>\<open>asset_flow_nb\<close> (nb.py, lines
  6918-6940); \<open>out\<close> is the column of the result.
\<close>

fun asset_flow_loop ::
  "Direction \<Rightarrow> int \<Rightarrow> fl \<Rightarrow> fl list \<Rightarrow> order_record list \<Rightarrow> error + fl list" where
  "asset_flow_loop direction last_id position_now out [] = Inr out"
| "asset_flow_loop direction last_id position_now out (order_record # rest) =
     (if or_id order_record < last_id
        then Inl (ValueError ''Ids must come in ascending order per column'')
      else
        (let size' = (if or_side order_record = Some Sell
                      then fmul (or_size order_record) (Fin (- 1))
                      else or_size order_record);
             new_position_now = add_nb position_now size';
             asset_flow = (case direction of
                 LongOnly \<Rightarrow> get_long_size_nb position_now new_position_now
               | ShortOnly \<Rightarrow> get_short_size_nb position_now new_position_now
               | Both \<Rightarrow> size')
         in case get1d out (or_idx order_record) of
              Inl e \<Rightarrow> Inl e
            | Inr cur \<Rightarrow>
                (case set1d out (or_idx order_record) (add_nb cur asset_flow) of
                   Inl e \<Rightarrow> Inl e
                 | Inr out \<Rightarrow>
                     asset_flow_loop direction (or_id order_record) new_position_now out
                       rest)))"

text \<open>
  One column of \<^verbatim>\<open>asset_flow_nb\<close> (nb.py, lines 6901-6941) for \<open>bars\<close> bars, the
  first component of \<open>target_shape\<close>.
\<close>

definition asset_flow_nb :: "nat \<Rightarrow> order_record list \<Rightarrow> Direction \<Rightarrow> error + fl list" where
  "asset_flow_nb bars col_records direction =
     (if length col_records = 0 then Inr (replicate bars (Fin 0))
      else asset_flow_loop direction (- 1) (Fin 0) (replicate bars (Fin 0)) col_records)"

text \<open>One column of \<^verbatim>\<open>assets_nb\<close> (nb.py, lines 6953-6964).\<close>

fun assets_nb :: "fl list \<Rightarrow> fl \<Rightarrow> fl list" where
  "assets_nb [] position_now = []"
| "assets_nb (flow_value # rest) position_now =
     add_nb position_now flow_value # assets_nb rest (add_nb position_now flow_value)"

subsection \<open>Cash flow and cash\<close>

text \<open>\<^verbatim>\<open>get_free_cash_diff_nb\<close> (nb.py, lines 6995-7030): the result is
  \<open>(new_debt, free_cash_diff)\<close>.\<close>

definition get_free_cash_diff_nb :: "fl \<Rightarrow> fl \<Rightarrow> fl \<Rightarrow> fl \<Rightarrow> fl \<Rightarrow> fl \<times> fl" where
  "get_free_cash_diff_nb position_before position_now debt_now price_now fees_now =
     (let size' = add_nb position_now (fneg position_before);
          final_cash = fsub (fmul (fneg size') price_now) fees_now
      in if is_close_nb size' (Fin 0) then (debt_now, Fin 0)
         else if fgt size' (Fin 0) then
           if flt position_before (Fin 0) then
             (let short_size = (if flt position_now (Fin 0) then fabs size'
                                else fabs position_before);
                  avg_entry_price = fdiv debt_now (fabs position_before);
                  debt_diff = fmul short_size avg_entry_price
              in (add_nb debt_now (fneg debt_diff),
                  add_nb (fmul (Fin 2) debt_diff) final_cash))
           else (debt_now, final_cash)
         else if flt position_now (Fin 0) then
           (let short_size = (if flt position_before (Fin 0) then fabs size'
                              else fabs position_now);
                short_value = fmul short_size price_now
            in (fadd debt_now short_value,
                add_nb final_cash (fmul (Fin (- 2)) short_value)))
         else (debt_now, final_cash))"

text \<open>
  The loop over the records of a column in \<^verbatim>\<open>cash_flow_nb\<close> (nb.py, lines
  7063-7089).
\<close>

fun cash_flow_loop ::
  "bool \<Rightarrow> int \<Rightarrow> fl \<Rightarrow> fl \<Rightarrow> fl list \<Rightarrow> order_record list \<Rightarrow> error + fl list" where
  "cash_flow_loop free last_id position_now debt_now out [] = Inr out"
| "cash_flow_loop free last_id position_now debt_now out (order_record # rest) =
     (if or_id order_record < last_id
        then Inl (ValueError ''Ids must come in ascending order per column'')
      else
        (let size' = (if or_side order_record = Some Sell
                      then fmul (or_size order_record) (Fin (- 1))
                      else or_size order_record);
             new_position_now = add_nb position_now size';
             (debt_now, cash_flow) =
               (if free then
                  get_free_cash_diff_nb position_now new_position_now debt_now
                    (or_price order_record) (or_fees order_record)
                else (debt_now,
                      fsub (fmul (fneg size') (or_price order_record))
                        (or_fees order_record)))
         in case get1d out (or_idx order_record) of
              Inl e \<Rightarrow> Inl e
            | Inr cur \<Rightarrow>
                (case set1d out (or_idx order_record) (add_nb cur cash_flow) of
                   Inl e \<Rightarrow> Inl e
                 | Inr out \<Rightarrow>
                     cash_flow_loop free (or_id order_record) new_position_now debt_now out
                       rest)))"

text \<open>One column of \<^verbatim>\<open>cash_flow_nb\<close> (nb.py, lines 7045-7090).\<close>

definition cash_flow_nb :: "nat \<Rightarrow> order_record list \<Rightarrow> bool \<Rightarrow> error + fl list" where
  "cash_flow_nb bars col_records free =
     (if length col_records = 0 then Inr (replicate bars (Fin 0))
      else cash_flow_loop free (- 1) (Fin 0) (Fin 0) (replicate bars (Fin 0)) col_records)"

text \<open>
  One column of \<^verbatim>\<open>cash_nb\<close> (nb.py, lines 7201-7211): the cash before the first bar
  is \<open>init_cash\<close>, the cash before another bar is the cash of the bar before.
\<close>

fun cash_nb :: "fl list \<Rightarrow> fl \<Rightarrow> fl list" where
  "cash_nb [] cash_now = []"
| "cash_nb (flow_value # rest) cash_now =
     add_nb cash_now flow_value # cash_nb rest (add_nb cash_now flow_value)"

subsection \<open>Total profit\<close>

text \<open>
  The loop over the records of a column in \<^verbatim>\<open>total_profit_nb\<close> (nb.py, lines
  7385-7405): the result is \<open>(assets[col], cash[col])\<close>.
\<close>

fun total_profit_loop :: "int \<Rightarrow> fl \<Rightarrow> fl \<Rightarrow> order_record list \<Rightarrow> error + (fl \<times> fl)" where
  "total_profit_loop last_id assets cash_now [] = Inr (assets, cash_now)"
| "total_profit_loop last_id assets cash_now (order_record # rest) =
     (if or_id order_record < last_id
        then Inl (ValueError ''Ids must come in ascending order per column'')
      else
        (let assets = (if or_side order_record = Some Buy
                       then add_nb assets (or_size order_record)
                       else add_nb assets (fneg (or_size order_record)));
             cash_now = (if or_side order_record = Some Buy
                         then add_nb cash_now
                                (fneg (fadd (fmul (or_size order_record) (or_price order_record))
                                   (or_fees order_record)))
                         else add_nb cash_now
                                (fsub (fmul (or_size order_record) (or_price order_record))
                                   (or_fees order_record)))
         in total_profit_loop (or_id order_record) assets cash_now rest))"

text \<open>
  One column of \<^verbatim>\<open>total_profit_nb\<close> (nb.py, lines 7357-7409); \<open>close_col\<close> is the
  column of the closing prices.
\<close>

definition total_profit_nb :: "fl list \<Rightarrow> order_record list \<Rightarrow> fl \<Rightarrow> error + fl" where
  "total_profit_nb close_col col_records init_position =
     (case (if \<not> feq init_position (Fin 0) then
              case get1d close_col 0 of
                Inl e \<Rightarrow> Inl e
              | Inr close_first \<Rightarrow>
                  Inr (init_position, fmul (fneg close_first) init_position)
            else Inr (Fin 0, Fin 0)) of
        Inl e \<Rightarrow> Inl e
      | Inr (assets, cash_now) \<Rightarrow>
          (case total_profit_loop (- 1) assets cash_now col_records of
             Inl e \<Rightarrow> Inl e
           | Inr (assets_end, cash_end) \<Rightarrow>
               (case get1d close_col (- 1) of
                  Inl e \<Rightarrow> Inl e
                | Inr close_last \<Rightarrow>
                    if length col_records = 0 \<and> feq assets (Fin 0) \<and> feq cash_now (Fin 0)
                    then Inr (Fin 0)
                    else Inr (fadd cash_end (fmul assets_end close_last)))))"

text \<open>
  The reference of section 4.9 of the specification, written from its words: the cash
  is the initial cash plus the cumulated cash flow, the assets are the initial position
  plus the cumulated asset flow, the value is cash plus assets times close, and the total
  profit is the value at the last bar minus the initial value, which
  \<^verbatim>\<open>init_value_nb\<close> (nb.py, lines 7413-7422) computes as the initial cash plus the
  first close times the initial position.
\<close>

definition total_profit_reference ::
  "nat \<Rightarrow> fl list \<Rightarrow> order_record list \<Rightarrow> fl \<Rightarrow> fl \<Rightarrow> error + fl" where
  "total_profit_reference bars close_col col_records init_cash init_position =
     (case asset_flow_nb bars col_records Both of
        Inl e \<Rightarrow> Inl e
      | Inr asset_flow \<Rightarrow>
          (case cash_flow_nb bars col_records False of
             Inl e \<Rightarrow> Inl e
           | Inr cash_flow \<Rightarrow>
               (case (get1d (cash_nb cash_flow init_cash) (- 1),
                      get1d (assets_nb asset_flow init_position) (- 1),
                      get1d close_col (- 1), get1d close_col 0) of
                  (Inr cash_end, Inr assets_end, Inr close_last, Inr close_first) \<Rightarrow>
                    Inr (fsub (fadd cash_end (fmul assets_end close_last))
                           (fadd init_cash (fmul close_first init_position)))
                | _ \<Rightarrow> Inl (IndexError ''index is out of bounds''))))"

subsection \<open>Well-formed records of a column\<close>

text \<open>
  The records of a column are well formed when size, price and fees are finite, the side
  is set, the bar is one of the \<open>bars\<close> bars, and the ids come in ascending order, which
  is what the loops test. \<open>signed_size\<close> and \<open>signed_cash\<close> are the asset flow and the
  cash flow of a record as real numbers: the size counted negative for a sell, and
  \<open>-size * price - fees\<close> with that signed size.
\<close>

definition well_formed_record :: "nat \<Rightarrow> order_record \<Rightarrow> bool" where
  "well_formed_record bars order_record =
     (isfinite (or_size order_record) \<and> isfinite (or_price order_record)
      \<and> isfinite (or_fees order_record) \<and> or_side order_record \<noteq> None
      \<and> 0 \<le> or_idx order_record \<and> or_idx order_record < int bars)"

fun ids_ascending :: "int \<Rightarrow> order_record list \<Rightarrow> bool" where
  "ids_ascending last_id [] = True"
| "ids_ascending last_id (order_record # rest) =
     (last_id \<le> or_id order_record \<and> ids_ascending (or_id order_record) rest)"

fun rv :: "fl \<Rightarrow> real" where
  "rv (Fin x) = x"
| "rv _ = 0"

definition signed_size :: "order_record \<Rightarrow> real" where
  "signed_size order_record =
     (if or_side order_record = Some Sell then - rv (or_size order_record)
      else rv (or_size order_record))"

definition signed_cash :: "order_record \<Rightarrow> real" where
  "signed_cash order_record =
     - signed_size order_record * rv (or_price order_record) - rv (or_fees order_record)"

section \<open>Properties\<close>

subsection \<open>Rounding\<close>

lemma two_powi_less_iff [simp]: "(2::real) powi a < 2 powi b \<longleftrightarrow> a < b"
proof
  assume "(2::real) powi a < 2 powi b"
  show "a < b"
  proof (rule ccontr)
    assume "\<not> a < b"
    then have "b \<le> a" by simp
    then have "(2::real) powi b \<le> 2 powi a" by (intro power_int_increasing) auto
    with \<open>(2::real) powi a < 2 powi b\<close> show False by simp
  qed
next
  assume "a < b"
  then show "(2::real) powi a < 2 powi b" by (intro power_int_strict_increasing) auto
qed

lemma two_powi_le_iff [simp]: "(2::real) powi a \<le> 2 powi b \<longleftrightarrow> a \<le> b"
  using two_powi_less_iff [of b a] by (simp only: not_less [symmetric])

lemma expo_minus [simp]: "expo (- x) = expo x"
  by (simp add: expo_def)

lemma expo_abs [simp]: "expo \<bar>x\<bar> = expo x"
  by (simp add: expo_def)

lemma expo_bounds_ge1:
  assumes "1 \<le> \<bar>x\<bar>"
  shows "2 powi expo x \<le> \<bar>x\<bar>" "\<bar>x\<bar> < 2 powi (expo x + 1)"
proof -
  let ?n = "\<lfloor>\<bar>x\<bar>\<rfloor>"
  from assms have n: "0 < ?n" by linarith
  from n have b1: "1 \<le> bitlen ?n" by (auto simp: bitlen_alt_def)
  from bitlen_bounds [OF n] have lo: "2 ^ nat (bitlen ?n - 1) \<le> ?n"
    and hi: "?n < 2 ^ nat (bitlen ?n)" by auto
  have e: "expo x = bitlen ?n - 1" using assms by (simp add: expo_def)
  have "(2::real) powi expo x = 2 ^ nat (bitlen ?n - 1)"
    using b1 by (simp add: e power_int_nonneg_exp)
  also have "\<dots> = of_int (2 ^ nat (bitlen ?n - 1))" by simp
  also have "\<dots> \<le> of_int ?n" using lo by (simp only: of_int_le_iff)
  also have "\<dots> \<le> \<bar>x\<bar>" by simp
  finally show "2 powi expo x \<le> \<bar>x\<bar>" .
  have "?n + 1 \<le> 2 ^ nat (bitlen ?n)" using hi by simp
  then have "real_of_int (?n + 1) \<le> real_of_int (2 ^ nat (bitlen ?n))"
    by (simp only: of_int_le_iff)
  moreover have "real_of_int (2 ^ nat (bitlen ?n)) = 2 ^ nat (bitlen ?n)" by simp
  moreover have "\<bar>x\<bar> < real_of_int (?n + 1)" by linarith
  ultimately have "\<bar>x\<bar> < 2 ^ nat (bitlen ?n)" by linarith
  also have "\<dots> = 2 powi (expo x + 1)"
    using b1 by (simp add: e power_int_nonneg_exp)
  finally show "\<bar>x\<bar> < 2 powi (expo x + 1)" .
qed

lemma expo_bounds_lt1:
  assumes "x \<noteq> 0" "\<bar>x\<bar> < 1"
  shows "2 powi expo x \<le> \<bar>x\<bar>" "\<bar>x\<bar> < 2 powi (expo x + 1)"
proof -
  let ?y = "1 / \<bar>x\<bar>"
  let ?n = "\<lceil>?y\<rceil> - 1"
  from assms have y1: "1 < ?y" by simp
  then have n: "0 < ?n" by linarith
  from n have b1: "1 \<le> bitlen ?n" by (auto simp: bitlen_alt_def)
  from bitlen_bounds [OF n] have lo: "2 ^ nat (bitlen ?n - 1) \<le> ?n"
    and hi: "?n < 2 ^ nat (bitlen ?n)" by auto
  have e: "expo x = - bitlen ?n" using assms by (simp add: expo_def)
  have xpos: "0 < \<bar>x\<bar>" using assms by simp
  have "?n + 1 \<le> 2 ^ nat (bitlen ?n)" using hi by simp
  then have "real_of_int (?n + 1) \<le> real_of_int (2 ^ nat (bitlen ?n))"
    by (simp only: of_int_le_iff)
  moreover have "real_of_int (2 ^ nat (bitlen ?n)) = 2 ^ nat (bitlen ?n)" by simp
  moreover have "?y \<le> real_of_int (?n + 1)" by simp
  ultimately have "?y \<le> 2 ^ nat (bitlen ?n)" by linarith
  then have "1 \<le> 2 ^ nat (bitlen ?n) * \<bar>x\<bar>"
    using xpos by (simp add: field_simps)
  then have "1 / 2 ^ nat (bitlen ?n) \<le> \<bar>x\<bar>"
    by (simp add: field_simps)
  moreover have "(2::real) powi expo x = 1 / 2 ^ nat (bitlen ?n)"
    using b1 by (simp add: e power_int_minus_divide power_int_nonneg_exp)
  ultimately show "2 powi expo x \<le> \<bar>x\<bar>" by simp
  have "real_of_int (2 ^ nat (bitlen ?n - 1)) \<le> real_of_int ?n"
    using lo by (simp only: of_int_le_iff)
  moreover have "real_of_int (2 ^ nat (bitlen ?n - 1)) = 2 ^ nat (bitlen ?n - 1)" by simp
  moreover have "real_of_int ?n < ?y" by linarith
  ultimately have "2 ^ nat (bitlen ?n - 1) < ?y" by linarith
  then have "2 ^ nat (bitlen ?n - 1) * \<bar>x\<bar> < 1"
    using xpos by (simp add: field_simps)
  then have "\<bar>x\<bar> < 1 / 2 ^ nat (bitlen ?n - 1)"
    by (simp add: field_simps)
  moreover have "(2::real) powi (expo x + 1) = 1 / 2 ^ nat (bitlen ?n - 1)"
  proof -
    have "expo x + 1 = - (bitlen ?n - 1)" by (simp add: e)
    then have "(2::real) powi (expo x + 1) = 1 / 2 powi (bitlen ?n - 1)"
      by (simp only: power_int_minus_divide)
    then show ?thesis using b1 by (simp add: power_int_nonneg_exp)
  qed
  ultimately show "\<bar>x\<bar> < 2 powi (expo x + 1)" by simp
qed

lemma expo_bounds:
  assumes "x \<noteq> 0"
  shows "2 powi expo x \<le> \<bar>x\<bar>" "\<bar>x\<bar> < 2 powi (expo x + 1)"
  using assms expo_bounds_ge1 [of x] expo_bounds_lt1 [of x]
  by (cases "1 \<le> \<bar>x\<bar>"; simp)+

lemma expo_unique:
  assumes "2 powi e \<le> \<bar>x\<bar>" "\<bar>x\<bar> < 2 powi (e + 1)"
  shows "expo x = e"
proof -
  have pos: "0 < (2::real) powi e" by simp
  have nz: "x \<noteq> 0"
  proof
    assume "x = 0"
    with assms(1) have "(2::real) powi e \<le> 0" by simp
    with pos show False by linarith
  qed
  from expo_bounds [OF nz] assms
  have "(2::real) powi e < 2 powi (expo x + 1)" "(2::real) powi expo x < 2 powi (e + 1)"
    by linarith+
  then have "e < expo x + 1" "expo x < e + 1"
    by (simp_all only: two_powi_less_iff)
  then show ?thesis by simp
qed

lemma round_even_of_int [simp]: "round_even (of_int n) = n"
  by (simp add: round_even_def)

lemma round_even_0 [simp]: "round_even 0 = 0"
  using round_even_of_int [of 0] by simp

lemma round_even_floor: "\<lfloor>x\<rfloor> \<le> round_even x"
  by (simp add: round_even_def Let_def)

lemma round_even_floor1: "round_even x \<le> \<lfloor>x\<rfloor> + 1"
  by (simp add: round_even_def Let_def)

lemma round_even_error: "\<bar>of_int (round_even x) - x\<bar> \<le> 1 / 2"
proof -
  have "of_int \<lfloor>x\<rfloor> \<le> x" "x < of_int \<lfloor>x\<rfloor> + 1" by linarith+
  then show ?thesis
    by (auto simp: round_even_def Let_def abs_le_iff)
qed

lemma round_even_mono:
  assumes "x \<le> y"
  shows "round_even x \<le> round_even y"
proof (cases "\<lfloor>x\<rfloor> = \<lfloor>y\<rfloor>")
  case True
  with assms show ?thesis
    by (auto simp: round_even_def Let_def)
next
  case False
  with assms have "\<lfloor>x\<rfloor> < \<lfloor>y\<rfloor>" using floor_mono [of x y] by linarith
  with round_even_floor1 [of x] round_even_floor [of y] show ?thesis by linarith
qed

lemma round_even_minus: "round_even (- x) = - round_even x"
proof (cases "x \<in> \<int>")
  case True
  then obtain n where "x = of_int n" by (auto elim: Ints_cases)
  then have "- x = of_int (- n)" by simp
  then show ?thesis using \<open>x = of_int n\<close> by (simp only: round_even_of_int)
next
  case False
  then have ne: "of_int \<lfloor>x\<rfloor> \<noteq> x" by (metis Ints_of_int)
  have b: "of_int \<lfloor>x\<rfloor> \<le> x" "x < of_int \<lfloor>x\<rfloor> + 1" by linarith+
  have f: "\<lfloor>- x\<rfloor> = - \<lfloor>x\<rfloor> - 1"
  proof (rule floor_unique)
    have e: "real_of_int (- \<lfloor>x\<rfloor> - 1) = - real_of_int \<lfloor>x\<rfloor> - 1" by simp
    show "of_int (- \<lfloor>x\<rfloor> - 1) \<le> - x" using b e by linarith
    show "- x < of_int (- \<lfloor>x\<rfloor> - 1) + 1" using ne b e by linarith
  qed
  from ne b show ?thesis
    by (auto simp: round_even_def Let_def f)
qed

lemma round_even_ge_int: "of_int n \<le> x \<Longrightarrow> n \<le> round_even x"
  using round_even_mono [of "of_int n" x] by simp

lemma round_even_le_int: "x \<le> of_int n \<Longrightarrow> round_even x \<le> n"
  using round_even_mono [of x "of_int n"] by simp

lemma round_even_nonneg: "0 \<le> x \<Longrightarrow> 0 \<le> round_even x"
  using round_even_ge_int [of 0 x] by simp

lemma ulp_exp_minus [simp]: "ulp_exp (- x) = ulp_exp x"
  by (simp add: ulp_exp_def)

lemma round_real_0 [simp]: "round_real 0 = 0"
  by (simp add: round_real_def)

lemma round_real_minus: "round_real (- x) = - round_real x"
  by (simp add: round_real_def round_even_minus)

lemma round_real_nonneg: "0 \<le> x \<Longrightarrow> 0 \<le> round_real x"
  by (simp add: round_real_def round_even_nonneg)

lemma round_real_nonpos: "x \<le> 0 \<Longrightarrow> round_real x \<le> 0"
  using round_real_nonneg [of "- x"] by (simp add: round_real_minus)

lemma round_real_error: "\<bar>round_real x - x\<bar> \<le> 2 powi ulp_exp x / 2"
proof -
  let ?u = "(2::real) powi ulp_exp x"
  have u: "0 < ?u" by simp
  have "round_real x - x = (of_int (round_even (x / ?u)) - x / ?u) * ?u"
    using u by (simp add: round_real_def field_simps)
  then have "\<bar>round_real x - x\<bar> = \<bar>of_int (round_even (x / ?u)) - x / ?u\<bar> * ?u"
    using u by (simp add: abs_mult)
  also have "\<dots> \<le> 1 / 2 * ?u"
    using round_even_error [of "x / ?u"] u by (intro mult_right_mono) auto
  finally show ?thesis by simp
qed

text \<open>The binade of a value: with \<open>E = max (expo x) (-1022)\<close>, \<open>|x| < 2 ^ (E + 1)\<close>.\<close>

lemma ulp_exp_upper: "\<bar>x\<bar> < 2 powi (ulp_exp x + 53)"
proof (cases "x = 0")
  case False
  from expo_bounds(2) [OF False] have "\<bar>x\<bar> < 2 powi (expo x + 1)" .
  also have "\<dots> \<le> 2 powi (ulp_exp x + 53)"
    by (simp only: two_powi_le_iff) (simp add: ulp_exp_def)
  finally show ?thesis .
qed simp

lemma ulp_exp_lower: "- 1022 \<le> expo x \<Longrightarrow> x \<noteq> 0 \<Longrightarrow> 2 powi (ulp_exp x + 52) \<le> \<bar>x\<bar>"
  using expo_bounds(1) [of x] by (simp add: ulp_exp_def max_def)

lemma powi_split: "(2::real) powi (a + b) = 2 powi a * 2 powi b"
  by (simp add: power_int_add)

lemma round_real_upper: "\<bar>round_real x\<bar> \<le> 2 powi (ulp_exp x + 53)"
proof -
  let ?u = "(2::real) powi ulp_exp x"
  have u: "0 < ?u" by simp
  have "\<bar>x\<bar> < ?u * 2 ^ 53"
    using ulp_exp_upper [of x] by (simp add: powi_split)
  then have "\<bar>x\<bar> / ?u < 2 ^ 53" using u by (simp add: field_simps)
  then have "\<bar>x / ?u\<bar> < 2 ^ 53" using u by (simp only: abs_divide abs_of_pos)
  then have "x / ?u \<le> 2 ^ 53" "- (2 ^ 53) \<le> x / ?u" by linarith+
  then have "x / ?u \<le> of_int (2 ^ 53)" "of_int (- (2 ^ 53)) \<le> x / ?u" by simp_all
  then have "round_even (x / ?u) \<le> 2 ^ 53" "- (2 ^ 53) \<le> round_even (x / ?u)"
    using round_even_le_int [of "x / ?u" "2 ^ 53"] round_even_ge_int [of "- (2 ^ 53)" "x / ?u"]
    by blast+
  then have "\<bar>round_even (x / ?u)\<bar> \<le> 2 ^ 53" by simp
  then have "\<bar>real_of_int (round_even (x / ?u))\<bar> \<le> 2 ^ 53"
    by (metis of_int_abs of_int_le_numeral_power_cancel_iff)
  then have "\<bar>real_of_int (round_even (x / ?u))\<bar> * ?u \<le> 2 ^ 53 * ?u"
    using u by (intro mult_right_mono) auto
  then show ?thesis by (simp add: round_real_def abs_mult powi_split)
qed

lemma round_real_lower:
  assumes "- 1022 \<le> expo x" "x \<noteq> 0"
  shows "2 powi (ulp_exp x + 52) \<le> \<bar>round_real x\<bar>"
proof -
  let ?u = "(2::real) powi ulp_exp x"
  have u: "0 < ?u" by simp
  have x: "?u * 2 ^ 52 \<le> \<bar>x\<bar>"
    using ulp_exp_lower [OF assms] by (simp add: powi_split)
  have "2 ^ 52 \<le> \<bar>real_of_int (round_even (x / ?u))\<bar>"
  proof (cases "0 \<le> x")
    case True
    with x have "of_int (2 ^ 52) \<le> x / ?u" using u by (simp add: field_simps)
    then have "2 ^ 52 \<le> round_even (x / ?u)" by (rule round_even_ge_int)
    then have "(2::real) ^ 52 \<le> real_of_int (round_even (x / ?u))"
      by (metis of_int_numeral of_int_power of_int_le_iff)
    then show ?thesis by simp
  next
    case False
    with x have "x / ?u \<le> of_int (- (2 ^ 52))" using u by (simp add: field_simps)
    then have "round_even (x / ?u) \<le> - (2 ^ 52)" by (rule round_even_le_int)
    then have "real_of_int (round_even (x / ?u)) \<le> - ((2::real) ^ 52)"
      by (metis of_int_numeral of_int_power of_int_le_iff of_int_minus)
    then show ?thesis by simp
  qed
  then have "2 ^ 52 * ?u \<le> \<bar>real_of_int (round_even (x / ?u))\<bar> * ?u"
    using u by (intro mult_right_mono) auto
  then show ?thesis by (simp add: round_real_def abs_mult powi_split)
qed

lemma bitlen_neg1 [simp]: "bitlen (- 1) = 0"
  by (simp add: bitlen_eq_zero_iff)

lemma expo_0 [simp]: "expo 0 = 0"
  by (simp add: expo_def)

lemma expo_mono:
  assumes "x \<noteq> 0" "\<bar>x\<bar> \<le> \<bar>y\<bar>"
  shows "expo x \<le> expo y"
proof -
  from assms have y: "y \<noteq> 0" by auto
  from expo_bounds(1) [OF assms(1)] expo_bounds(2) [OF y] assms(2)
  have "(2::real) powi expo x < 2 powi (expo y + 1)" by linarith
  then have "expo x < expo y + 1" by (simp only: two_powi_less_iff)
  then show ?thesis by simp
qed

lemma ulp_exp_mono: "x \<noteq> 0 \<Longrightarrow> \<bar>x\<bar> \<le> \<bar>y\<bar> \<Longrightarrow> ulp_exp x \<le> ulp_exp y"
  using expo_mono [of x y] by (simp add: ulp_exp_def)

lemma round_real_mono_nonneg:
  assumes "0 \<le> x" "x \<le> y"
  shows "round_real x \<le> round_real y"
proof (cases "x = 0")
  case True
  with assms round_real_nonneg [of y] show ?thesis by simp
next
  case False
  with assms have le: "ulp_exp x \<le> ulp_exp y" by (intro ulp_exp_mono) auto
  from False assms have y: "y \<noteq> 0" by auto
  show ?thesis
  proof (cases "ulp_exp x = ulp_exp y")
    case True
    let ?u = "(2::real) powi ulp_exp y"
    have u: "0 < ?u" by simp
    have "x / ?u \<le> y / ?u" using assms u by (simp add: divide_right_mono)
    then have "round_even (x / ?u) \<le> round_even (y / ?u)" by (rule round_even_mono)
    then have "real_of_int (round_even (x / ?u)) \<le> real_of_int (round_even (y / ?u))"
      by simp
    then have "real_of_int (round_even (x / ?u)) * ?u \<le> real_of_int (round_even (y / ?u)) * ?u"
      using u by (intro mult_right_mono) auto
    then show ?thesis by (simp add: round_real_def True)
  next
    case ne: False
    with le have lt: "ulp_exp x < ulp_exp y" by simp
    then have ey: "- 1022 \<le> expo y" by (simp add: ulp_exp_def max_def split: if_splits)
    have "round_real x \<le> \<bar>round_real x\<bar>" by simp
    also have "\<dots> \<le> 2 powi (ulp_exp x + 53)" by (rule round_real_upper)
    also have "\<dots> \<le> 2 powi (ulp_exp y + 52)"
      using lt by (simp only: two_powi_le_iff; simp)
    also have "\<dots> \<le> \<bar>round_real y\<bar>" using ey y by (rule round_real_lower)
    also have "\<dots> = round_real y"
      using round_real_nonneg [of y] assms by simp
    finally show ?thesis .
  qed
qed

lemma round_real_mono:
  assumes "x \<le> y"
  shows "round_real x \<le> round_real y"
proof -
  consider "0 \<le> x" | "y \<le> 0" | "x < 0" "0 < y" by linarith
  then show ?thesis
  proof cases
    case 1
    with assms show ?thesis by (intro round_real_mono_nonneg)
  next
    case 2
    with assms have "round_real (- y) \<le> round_real (- x)"
      by (intro round_real_mono_nonneg) auto
    then show ?thesis by (simp add: round_real_minus)
  next
    case 3
    with round_real_nonpos [of x] round_real_nonneg [of y] show ?thesis by simp
  qed
qed

lemma round_real_exact:
  assumes "x = of_int m * 2 powi k" "ulp_exp x \<le> k"
  shows "round_real x = x"
proof -
  let ?U = "ulp_exp x"
  have "x / 2 powi ?U = of_int m * (2 powi k / 2 powi ?U)"
    by (subst assms(1)) simp
  also have "(2::real) powi k / 2 powi ?U = 2 powi (k - ?U)"
    by (simp add: power_int_diff)
  also have "(2::real) powi (k - ?U) = 2 ^ nat (k - ?U)"
    using assms(2) by (simp add: power_int_nonneg_exp)
  finally have "x / 2 powi ?U = of_int (m * 2 ^ nat (k - ?U))"
    by simp
  then have "round_even (x / 2 powi ?U) = m * 2 ^ nat (k - ?U)"
    by (simp only: round_even_of_int)
  then have "round_real x = of_int (m * 2 ^ nat (k - ?U)) * 2 powi ?U"
    by (simp add: round_real_def)
  also have "\<dots> = x" using \<open>x / 2 powi ?U = of_int (m * 2 ^ nat (k - ?U))\<close>
    by (simp add: field_simps)
  finally show ?thesis .
qed

lemma ulp_exp_eqI:
  assumes "2 powi e \<le> \<bar>x\<bar>" "\<bar>x\<bar> < 2 powi (e + 1)"
  shows "ulp_exp x = max e (- 1022) - 52"
  using expo_unique [OF assms] by (simp add: ulp_exp_def)

lemma ulp_exp_small:
  assumes "\<bar>x\<bar> < 2 powi (- 1021)" "x \<noteq> 0"
  shows "ulp_exp x = - 1074"
proof -
  from expo_bounds(1) [OF assms(2)] assms have "(2::real) powi expo x < 2 powi (- 1021)"
    by linarith
  then have "expo x < - 1021" by (simp only: two_powi_less_iff)
  then show ?thesis by (simp add: ulp_exp_def)
qed

lemma round_real_idem: "round_real (round_real x) = round_real x"
proof -
  let ?U = "ulp_exp x"
  let ?m = "round_even (x / 2 powi ?U)"
  let ?y = "round_real x"
  have y: "?y = of_int ?m * 2 powi ?U" by (simp add: round_real_def)
  show ?thesis
  proof (cases "?y = 0")
    case True
    then show ?thesis by simp
  next
    case False
    then have x: "x \<noteq> 0" by auto
    show ?thesis
    proof (cases "\<bar>?y\<bar> = 2 powi (?U + 53)")
      case True
      then have "expo ?y = ?U + 53" by (intro expo_unique) simp_all
      then have U: "ulp_exp ?y = ?U + 1" by (simp add: ulp_exp_def)
      have "?y = of_int (if 0 \<le> ?y then 2 ^ 52 else - (2 ^ 52)) * 2 powi (?U + 1)"
        using True by (simp add: powi_split abs_if split: if_splits)
      then show ?thesis by (rule round_real_exact) (simp add: U)
    next
      case ne: False
      with round_real_upper [of x] have lt: "\<bar>?y\<bar> < 2 powi (?U + 53)" by simp
      have "ulp_exp ?y = ?U"
      proof (cases "- 1022 \<le> expo x")
        case True
        from round_real_lower [OF True x] lt
        have "ulp_exp ?y = max (?U + 52) (- 1022) - 52"
          by (intro ulp_exp_eqI) (simp_all add: add.assoc)
        with True show ?thesis by (simp add: ulp_exp_def)
      next
        case False
        then have U: "?U = - 1074" by (simp add: ulp_exp_def)
        with lt have "\<bar>?y\<bar> < 2 powi (- 1021)" by simp
        then show ?thesis using U \<open>?y \<noteq> 0\<close> by (simp add: ulp_exp_small)
      qed
      then show ?thesis by (intro round_real_exact [OF y]) simp
    qed
  qed
qed

lemma round_real_rel_error:
  "\<bar>round_real x - x\<bar> \<le> \<bar>x\<bar> / 2 ^ 53 + 2 powi (- 1075)"
proof (cases "- 1022 \<le> expo x \<and> x \<noteq> 0")
  case True
  then have "2 powi (ulp_exp x + 52) \<le> \<bar>x\<bar>" by (intro ulp_exp_lower) auto
  then have "2 powi ulp_exp x * 2 ^ 52 \<le> \<bar>x\<bar>" by (simp add: powi_split)
  then have "2 powi ulp_exp x / 2 \<le> \<bar>x\<bar> / 2 ^ 53" by simp
  with round_real_error [of x] have "\<bar>round_real x - x\<bar> \<le> \<bar>x\<bar> / 2 ^ 53" by linarith
  moreover have "0 \<le> (2::real) powi (- 1075)" by simp
  ultimately show ?thesis by linarith
next
  case False
  show ?thesis
  proof (cases "x = 0")
    case True
    then show ?thesis by simp
  next
    case nz: False
    with False have "ulp_exp x = - 1074" by (simp add: ulp_exp_def)
    with round_real_error [of x] have "\<bar>round_real x - x\<bar> \<le> 2 powi (- 1074) / 2" by simp
    also have "\<dots> = 2 powi (- 1075)"
      by (simp add: power_int_minus_divide)
    finally have h: "\<bar>round_real x - x\<bar> \<le> 2 powi (- 1075)" .
    have "0 \<le> \<bar>x\<bar> / 2 ^ 53" by simp
    with h show ?thesis by linarith
  qed
qed

lemma round_real_rel_error_normal:
  assumes "2 powi (- 1022) \<le> \<bar>x\<bar>"
  shows "\<bar>round_real x - x\<bar> \<le> \<bar>x\<bar> / 2 ^ 53"
proof -
  have pos: "0 < (2::real) powi (- 1022)" by simp
  with assms have nz: "x \<noteq> 0" by auto
  from expo_bounds(2) [OF nz] assms have "(2::real) powi (- 1022) < 2 powi (expo x + 1)"
    by linarith
  then have e: "- 1022 \<le> expo x" by (simp only: two_powi_less_iff; simp)
  then have "2 powi (ulp_exp x + 52) \<le> \<bar>x\<bar>" using nz by (intro ulp_exp_lower) auto
  then have "2 powi ulp_exp x * 2 ^ 52 \<le> \<bar>x\<bar>" by (simp add: powi_split)
  then have "2 powi ulp_exp x / 2 \<le> \<bar>x\<bar> / 2 ^ 53" by simp
  with round_real_error [of x] show ?thesis by linarith
qed

lemma is_double_0 [simp]: "is_double 0"
  by (simp add: is_double_def)

lemma is_double_minus [simp]: "is_double (- x) = is_double x"
  by (auto simp: is_double_def round_real_minus)

lemma is_double_round: "\<bar>round_real x\<bar> < 2 ^ 1024 \<Longrightarrow> is_double (round_real x)"
  by (simp add: is_double_def round_real_idem)

lemma round_real_double: "is_double x \<Longrightarrow> round_real x = x"
  by (simp add: is_double_def)

lemma round_real_le_double: "is_double d \<Longrightarrow> x \<le> d \<Longrightarrow> round_real x \<le> d"
  using round_real_mono [of x d] by (simp add: is_double_def)

lemma round_real_ge_double: "is_double d \<Longrightarrow> d \<le> x \<Longrightarrow> d \<le> round_real x"
  using round_real_mono [of d x] by (simp add: is_double_def)

lemma round_real_dyadic:
  assumes "x * 2 ^ k \<in> \<int>" "\<bar>x\<bar> * 2 ^ k < 2 ^ 53" "k \<le> 1074"
  shows "round_real x = x"
proof -
  from assms(1) obtain m where m: "x * 2 ^ k = of_int m" by (auto elim: Ints_cases)
  then have x: "x = of_int m * 2 powi (- int k)"
    by (simp add: power_int_minus_divide field_simps)
  show ?thesis
  proof (cases "x = 0")
    case True
    then show ?thesis by simp
  next
    case False
    have "\<bar>x\<bar> < 2 ^ 53 / 2 ^ k" using assms(2) by (simp add: field_simps)
    also have "\<dots> = 2 powi (53 - int k)"
      by (simp add: power_int_diff)
    finally have "(2::real) powi expo x < 2 powi (53 - int k)"
      using expo_bounds(1) [OF False] by linarith
    then have "expo x < 53 - int k" by (simp only: two_powi_less_iff)
    with assms(3) have "ulp_exp x \<le> - int k" by (simp add: ulp_exp_def)
    with x show ?thesis by (rule round_real_exact)
  qed
qed

lemma round_real_int:
  assumes "x \<in> \<int>" "\<bar>x\<bar> < 2 ^ 53"
  shows "round_real x = x"
  using round_real_dyadic [of x 0] assms by simp

lemma two_pow_1024_gt: "(2::real) ^ 53 < 2 ^ 1024"
  by (rule power_strict_increasing) simp_all

lemma rnd_not_NaN [simp]: "rnd x \<noteq> NaN"
  by (simp add: rnd_def Let_def)

lemma rnd_double: "is_double x \<Longrightarrow> rnd x = Fin x"
  by (auto simp: rnd_def is_double_def Let_def)

lemma rnd_0 [simp]: "rnd 0 = Fin 0"
  by (simp add: rnd_double)

lemma is_double_int: "x \<in> \<int> \<Longrightarrow> \<bar>x\<bar> < 2 ^ 53 \<Longrightarrow> is_double x"
  using two_pow_1024_gt by (simp add: is_double_def round_real_int)

lemma is_double_dyadic:
  assumes "x * 2 ^ k \<in> \<int>" "\<bar>x\<bar> * 2 ^ k < 2 ^ 53" "k \<le> 1074"
  shows "is_double x"
proof -
  have "\<bar>x\<bar> * 1 \<le> \<bar>x\<bar> * 2 ^ k" by (intro mult_left_mono) simp_all
  with assms(2) two_pow_1024_gt have "\<bar>x\<bar> < 2 ^ 1024" by linarith
  with assms show ?thesis by (simp add: is_double_def round_real_dyadic)
qed

lemma rnd_int: "x \<in> \<int> \<Longrightarrow> \<bar>x\<bar> < 2 ^ 53 \<Longrightarrow> rnd x = Fin x"
  by (simp add: rnd_double is_double_int)

lemma rnd_dyadic:
  "x * 2 ^ k \<in> \<int> \<Longrightarrow> \<bar>x\<bar> * 2 ^ k < 2 ^ 53 \<Longrightarrow> k \<le> 1074 \<Longrightarrow> rnd x = Fin x"
  by (simp add: rnd_double is_double_dyadic)

lemma rnd_minus: "rnd (- x) = fneg (rnd x)"
  by (auto simp: rnd_def Let_def round_real_minus)

lemma rnd_Fin: "rnd x = Fin y \<Longrightarrow> y = round_real x \<and> is_double y"
  by (auto simp: rnd_def Let_def is_double_round abs_less_iff split: if_splits)

lemma rnd_binade:
  assumes "2 powi e \<le> \<bar>x\<bar>" "\<bar>x\<bar> < 2 powi (e + 1)"
  shows "rnd x =
     (let u = 2 powi (max e (- 1022) - 52); y = of_int (round_even (x / u)) * u
      in if 2 ^ 1024 \<le> y then PInf else if y \<le> - (2 ^ 1024) then NInf else Fin y)"
  using ulp_exp_eqI [OF assms] by (simp add: rnd_def round_real_def Let_def)


subsection \<open>Tolerant comparison with zero\<close>

lemma is_close_zero: "is_close_nb (Fin x) (Fin 0) = (\<bar>x\<bar> \<le> abs_tol)"
proof -
  have pos: "0 < abs_tol" by (simp add: abs_tol_def)
  have "\<bar>x\<bar> \<le> abs_tol" if a: "\<bar>x\<bar> \<le> rel_tol * \<bar>x\<bar>"
  proof -
    have "rel_tol * \<bar>x\<bar> = \<bar>x\<bar> / 10 ^ 9" by (simp add: rel_tol_def)
    with a have "\<bar>x\<bar> = 0" by simp
    with pos show ?thesis by simp
  qed
  moreover have "is_close_nb (Fin x) (Fin 0) =
      (\<bar>x\<bar> \<le> rel_tol * \<bar>x\<bar> \<or> \<bar>x\<bar> \<le> abs_tol)"
    by (simp add: le_max_iff_disj)
  ultimately show ?thesis by blast
qed

lemma snap_zero_simps [simp]:
  "snap_zero NaN = NaN" "snap_zero PInf = PInf" "snap_zero NInf = NInf"
  by (simp_all add: snap_zero_def)

lemma snap_zero_Fin [simp]:
  "snap_zero (Fin x) = Fin (if \<bar>x\<bar> \<le> abs_tol then 0 else x)"
  by (simp add: snap_zero_def is_close_zero del: is_close_nb.simps)

lemmas float_defs = fle_def feq_def fgt_def fge_def fmin_def fmax_def fsub_def
  is_close_or_less_nb_def is_less_nb_def add_nb_def rnd_int abs_tol_def rel_tol_def

text \<open>Evaluation of the rounding on a given number.\<close>

lemmas rnd_eval = rnd_def round_real_def ulp_exp_def expo_def compute_bitlen round_even_def
  Let_def

lemmas execute_defs = execute_order_nb_def stabilised_def check_price_area_def
  resolve_price_def check_exec_state_def check_order_def resolve_size_def
  norm_target_percent_def norm_value_def norm_target_amount_def norm_amount_def
  norm_percent_def sign_inf_def random_reject_def order_nb_def NoPriceArea_def

lemmas buy_defs = buy_nb_def check_adj_price_nb_def buy_cash_limit_def buy_adj_size_def
  buy_req_cash_def buy_final_size_def buy_size_checks_def buy_update_def

lemmas sell_defs = sell_nb_def check_adj_price_nb_def sell_size_limit_def
  sell_size_checks_def sell_acq_cash_def sell_update_def

subsection \<open>Stop price\<close>

text \<open>
  Claim C5. With \<open>hit_below\<close> set, \<open>get_stop_price_nb\<close> is the stop-hit rule of the
  specification: for a long position the level \<open>ref_price * (1 - stop)\<close>, the open when
  the bar opens at or below it, the level when it lies between low and high, NaN
  otherwise; for a short position the same with \<open>ref_price * (1 + stop)\<close> and the open
  when the level is at or below the open. Whatever the other arguments, a negative stop
  raises the error.
\<close>

theorem get_stop_price_nb_hit:
  "get_stop_price_nb position_now ref_price stop open_price low_price high_price True =
     (if flt stop (Fin 0) then Inl (ValueError ''Stop value must be 0 or greater'')
      else if fgt position_now (Fin 0)
        then Inr (spec_stop_hit_long ref_price stop open_price low_price high_price)
      else if flt position_now (Fin 0)
        then Inr (spec_stop_hit_short ref_price stop open_price low_price high_price)
      else Inr NaN)
   \<and> (flt stop (Fin 0) \<longrightarrow>
        get_stop_price_nb position_now ref_price stop open_price low_price high_price hit_below =
          Inl (ValueError ''Stop value must be 0 or greater''))"
  by (simp add: get_stop_price_nb_def spec_stop_hit_long_def spec_stop_hit_short_def Let_def)

theorem get_stop_price_nb_hit_witness:
  "flt (Fin (- 1)) (Fin 0)
   \<and> get_stop_price_nb (Fin 1) (Fin 10) (Fin (- 1)) (Fin 9) (Fin 9) (Fin 10) False =
       Inl (ValueError ''Stop value must be 0 or greater'')
   \<and> get_stop_price_nb (Fin 1) (Fin 10) (Fin (1 / 10)) (Fin 9) (Fin 9) (Fin 10) True =
       Inr (Fin 9)"
proof -
  have r1: "rnd (9 / 10) = Fin (8106479329266893 / 2 ^ 53)"
    using rnd_binade [of "- 1" "9 / 10"] by (simp add: round_even_def Let_def)
  have r2: "rnd (10 * (8106479329266893 / 2 ^ 53)) = Fin 9"
    using rnd_binade [of 3 "10 * (8106479329266893 / 2 ^ 53)"]
    by (simp add: round_even_def Let_def)
  from get_stop_price_nb_hit [of "Fin 1" "Fin 10" "Fin (- 1)" "Fin 9" "Fin 9" "Fin 10" False]
    get_stop_price_nb_hit [of "Fin 1" "Fin 10" "Fin (1 / 10)" "Fin 9" "Fin 9" "Fin 10" False]
    r1 r2
  show ?thesis
    by (simp add: spec_stop_hit_long_def fgt_def fle_def feq_def fsub_def)
qed

subsection \<open>Trade statistics\<close>

lemma eta_small: "(2::real) powi (- 1075) \<le> abs_tol / 2 ^ 53"
proof -
  have "(2::real) ^ 53 * 10 ^ 12 \<le> 2 ^ 53 * 2 ^ 40" by (intro mult_left_mono) simp_all
  also have "\<dots> \<le> 2 ^ 1075" by (simp flip: power_add)
  finally have "1 / (2::real) ^ 1075 \<le> 1 / (2 ^ 53 * 10 ^ 12)"
    by (intro divide_left_mono) simp_all
  then show ?thesis by (simp add: abs_tol_def power_int_minus_divide)
qed

lemma rnd_Fin_error:
  assumes "rnd x = Fin y"
  shows "\<bar>y - x\<bar> \<le> \<bar>x\<bar> / 2 ^ 53 + 2 powi (- 1075)"
  using rnd_Fin [OF assms] round_real_rel_error [of x] by simp

lemma rnd_Fin_error_normal:
  assumes "rnd x = Fin y" "2 powi (- 1022) \<le> \<bar>x\<bar>"
  shows "\<bar>y - x\<bar> \<le> \<bar>x\<bar> / 2 ^ 53"
  using rnd_Fin [OF assms(1)] round_real_rel_error_normal [OF assms(2)] by simp

lemma fadd_FinE:
  assumes "fadd a b = Fin z"
  obtains x y where "a = Fin x" "b = Fin y" "rnd (x + y) = Fin z"
  using assms by (cases a; cases b) auto

lemma fmul_FinE:
  assumes "fmul a b = Fin z"
  obtains x y where "a = Fin x" "b = Fin y" "rnd (x * y) = Fin z"
  using assms by (cases a; cases b) (auto split: if_splits)

lemma add_nb_FinE:
  assumes "add_nb a b = Fin z"
  obtains x y w where "a = Fin x" "b = Fin y" "rnd (x + y) = Fin w" "\<bar>z - w\<bar> \<le> abs_tol"
    "is_double z"
proof -
  have at: "0 \<le> abs_tol" by (simp add: abs_tol_def)
  show ?thesis
  proof (cases "is_close_nb (fadd a b) (Fin 0)")
    case True
    with assms have z: "z = 0" by (simp add: add_nb_def)
    from True obtain w where w: "fadd a b = Fin w" by (cases "fadd a b") auto
    with True have "\<bar>w\<bar> \<le> abs_tol" by (simp only: is_close_zero)
    with w z show ?thesis by (auto elim!: fadd_FinE intro!: that)
  next
    case False
    with assms have w: "fadd a b = Fin z" by (simp add: add_nb_def)
    then obtain x y where xy: "a = Fin x" "b = Fin y" "rnd (x + y) = Fin z"
      by (rule fadd_FinE)
    with rnd_Fin [OF xy(3)] at show ?thesis by (intro that [of x y z]) auto
  qed
qed

lemma fneg_FinE: "fneg a = Fin y \<Longrightarrow> a = Fin (- y)"
  by (cases a) auto

lemma get_trade_stats_nb_FinE:
  assumes "get_trade_stats_nb (Fin s) (Fin ep) (Fin ef) (Fin xp) (Fin xf) d = Inr (Fin p, r)"
  obtains ev xv w v0 p1 where
    "rnd (s * ep) = Fin ev" "rnd (s * xp) = Fin xv" "rnd (xv - ev) = Fin w"
    "\<bar>v0 - w\<bar> \<le> abs_tol" "rnd (dir_sign d * v0 - ef) = Fin p1" "rnd (p1 - xf) = Fin p"
    "ev \<noteq> 0" "r = rnd (p / ev)"
proof -
  define EV where "EV = rnd (s * ep)"
  define XV where "XV = rnd (s * xp)"
  define VD0 where "VD0 = add_nb XV (fneg EV)"
  define VD where "VD = (if \<not> feq VD0 (Fin 0) \<and> d = Short then fmul VD0 (Fin (- 1)) else VD0)"
  from assms have nz: "\<not> feq EV (Fin 0)"
    and pnl: "fadd (fadd VD (Fin (- ef))) (Fin (- xf)) = Fin p"
    and r: "r = fdiv (Fin p) EV"
    by (auto simp: get_trade_stats_nb_def Let_def EV_def XV_def VD0_def VD_def fsub_def
        split: if_splits)
  from pnl obtain p1 y where p1: "fadd VD (Fin (- ef)) = Fin p1" and "Fin (- xf) = Fin y"
    and "rnd (p1 + y) = Fin p"
    by (rule fadd_FinE)
  then have p: "rnd (p1 - xf) = Fin p" by auto
  from p1 obtain v y where v: "VD = Fin v" and "Fin (- ef) = Fin y"
    and "rnd (v + y) = Fin p1"
    by (rule fadd_FinE)
  then have pp: "rnd (v - ef) = Fin p1" by auto
  have "\<exists>v0. VD0 = Fin v0 \<and> v = dir_sign d * v0"
  proof (cases "\<not> feq VD0 (Fin 0) \<and> d = Short")
    case True
    with v have "fmul VD0 (Fin (- 1)) = Fin v" by (simp add: VD_def)
    then obtain v0 y where v0: "VD0 = Fin v0" and y: "Fin (- 1) = Fin y"
      and m: "rnd (v0 * y) = Fin v"
      by (rule fmul_FinE)
    from y have y1: "y = - 1" by simp
    from v0 have "is_double v0" unfolding VD0_def by (rule add_nb_FinE)
    then have "rnd (- v0) = Fin (- v0)" by (intro rnd_double) simp
    with m y1 have "v = - v0" by simp
    with v0 True show ?thesis by simp
  next
    case False
    with v have v0: "VD0 = Fin v" by (simp add: VD_def)
    show ?thesis
    proof (cases d)
      case Long
      with v0 show ?thesis by simp
    next
      case Short
      with False v0 have "v = 0" by (simp add: feq_def)
      with v0 show ?thesis by simp
    qed
  qed
  then obtain v0 where v0: "VD0 = Fin v0" "v = dir_sign d * v0" by blast
  from v0(1) obtain xv y w where xv: "XV = Fin xv" and y: "fneg EV = Fin y"
    and w: "rnd (xv + y) = Fin w" and tol: "\<bar>v0 - w\<bar> \<le> abs_tol"
    unfolding VD0_def by (rule add_nb_FinE)
  from y have ev: "EV = Fin (- y)" by (rule fneg_FinE)
  show ?thesis
  proof (rule that [of "- y" xv w v0 p1])
    show "rnd (s * ep) = Fin (- y)" using ev by (simp add: EV_def)
    show "rnd (s * xp) = Fin xv" using xv by (simp add: XV_def)
    show "rnd (xv - - y) = Fin w" using w by simp
    show "\<bar>v0 - w\<bar> \<le> abs_tol" by (rule tol)
    show "rnd (dir_sign d * v0 - ef) = Fin p1" using pp v0(2) by simp
    show "rnd (p1 - xf) = Fin p" by (rule p)
    show "- y \<noteq> 0" using nz ev by (simp add: feq_def)
    show "r = rnd (p / - y)" using r ev by simp
  qed
qed

lemma pnl_error_bound:
  fixes A B :: real
  assumes e1: "\<bar>ev - A\<bar> \<le> \<bar>A\<bar> / 2 ^ 53 + h"
    and e2: "\<bar>xv - B\<bar> \<le> \<bar>B\<bar> / 2 ^ 53 + h"
    and e3: "\<bar>w - (xv - ev)\<bar> \<le> \<bar>xv - ev\<bar> / 2 ^ 53 + h"
    and tol: "\<bar>v0 - w\<bar> \<le> t"
    and e4: "\<bar>p1 - (g * v0 - ef)\<bar> \<le> \<bar>g * v0 - ef\<bar> / 2 ^ 53 + h"
    and e5: "\<bar>p - (p1 - xf)\<bar> \<le> \<bar>p1 - xf\<bar> / 2 ^ 53 + h"
    and g: "g = 1 \<or> g = - 1"
    and h0: "0 \<le> h" and ht: "h \<le> t / 2 ^ 53" and t0: "0 \<le> t"
  shows "\<bar>p - (g * (B - A) - ef - xf)\<bar> \<le> 2 * t + (\<bar>A\<bar> + \<bar>B\<bar> + \<bar>ef\<bar> + \<bar>xf\<bar>) / 2 ^ 50"
proof -
  define a where "a = \<bar>A\<bar>"
  define b where "b = \<bar>B\<bar>"
  define e where "e = \<bar>ef\<bar>"
  define x where "x = \<bar>xf\<bar>"
  define d1 where "d1 = \<bar>ev - A\<bar>"
  define d2 where "d2 = \<bar>xv - B\<bar>"
  define d3 where "d3 = \<bar>w - (xv - ev)\<bar>"
  define m3 where "m3 = \<bar>xv - ev\<bar>"
  define d4 where "d4 = \<bar>p1 - (g * v0 - ef)\<bar>"
  define m4 where "m4 = \<bar>g * v0 - ef\<bar>"
  define d5 where "d5 = \<bar>p - (p1 - xf)\<bar>"
  define m5 where "m5 = \<bar>p1 - xf\<bar>"
  define dt where "dt = \<bar>v0 - w\<bar>"
  define r where "r = \<bar>p - (g * (B - A) - ef - xf)\<bar>"
  have pos: "0 \<le> a" "0 \<le> b" "0 \<le> e" "0 \<le> x"
    by (simp_all add: a_def b_def e_def x_def)
  have gb: "\<bar>g * (B - A)\<bar> \<le> a + b" using g by (auto simp: a_def b_def)
  have gv: "\<bar>g * v0 - g * (B - A)\<bar> = \<bar>v0 - (B - A)\<bar>" using g by auto
  have t1: "m3 \<le> d2 + d1 + a + b"
    unfolding m3_def d1_def d2_def a_def b_def by linarith
  have t2: "\<bar>v0 - (B - A)\<bar> \<le> dt + d3 + d2 + d1"
    unfolding dt_def d3_def d2_def d1_def by linarith
  have t3: "m4 \<le> \<bar>v0 - (B - A)\<bar> + a + b + e"
    using gb gv unfolding m4_def e_def by linarith
  have t4: "\<bar>p1 - (g * (B - A) - ef)\<bar> \<le> d4 + \<bar>v0 - (B - A)\<bar>"
    using gv unfolding d4_def by linarith
  have t5: "m5 \<le> \<bar>p1 - (g * (B - A) - ef)\<bar> + a + b + e + x"
    using gb unfolding m5_def e_def x_def by linarith
  have t6: "r \<le> d5 + \<bar>p1 - (g * (B - A) - ef)\<bar>"
    unfolding r_def d5_def by linarith
  define q where "q = \<bar>v0 - (B - A)\<bar>"
  define q1 where "q1 = \<bar>p1 - (g * (B - A) - ef)\<bar>"
  note f = e1 [folded d1_def a_def] e2 [folded d2_def b_def] e3 [folded d3_def m3_def]
    tol [folded dt_def] e4 [folded d4_def m4_def] e5 [folded d5_def m5_def]
    t1 t2 [folded q_def] t3 [folded q_def] t4 [folded q_def q1_def] t5 [folded q1_def]
    t6 [folded q1_def]
  have "r \<le> 2 * t + (a + b + e + x) / 2 ^ 50"
    using f pos h0 ht t0 by (simp add: field_simps)
  then show ?thesis by (simp add: r_def a_def b_def e_def x_def)
qed

lemma return_error_bound:
  fixes A :: real
  assumes ev: "\<bar>ev - A\<bar> \<le> \<bar>A\<bar> / 2 ^ 53" and A: "A \<noteq> 0"
    and r: "\<bar>r - p / ev\<bar> \<le> \<bar>p / ev\<bar> / 2 ^ 53 + h"
  shows "\<bar>r - p / A\<bar> \<le> \<bar>p / A\<bar> / 2 ^ 51 + h"
proof -
  define a where "a = \<bar>A\<bar>"
  define q where "q = p / A"
  define q' where "q' = p / ev"
  have a: "0 < a" using A by (simp add: a_def)
  have d: "\<bar>A - ev\<bar> \<le> a / 2 ^ 53" using ev by (simp add: a_def abs_minus_commute)
  have "a / 2 ^ 53 \<le> a / 2" using a by (simp add: field_simps)
  with d have lo: "a / 2 \<le> \<bar>ev\<bar>" unfolding a_def by linarith
  with a have ev0: "ev \<noteq> 0" by auto
  have "\<bar>A - ev\<bar> / \<bar>ev\<bar> \<le> (a / 2 ^ 53) / (a / 2)"
    using d lo a by (intro frac_le) auto
  also have "\<dots> = 2 / 2 ^ 53" using a by simp
  finally have rel: "\<bar>(A - ev) / ev\<bar> \<le> 2 / 2 ^ 53" by (simp add: abs_divide)
  have "q' - q = q * ((A - ev) / ev)"
    using A ev0 by (simp add: q_def q'_def field_simps)
  then have "\<bar>q' - q\<bar> = \<bar>q\<bar> * \<bar>(A - ev) / ev\<bar>" by (simp add: abs_mult)
  also have "\<dots> \<le> \<bar>q\<bar> * (2 / 2 ^ 53)" using rel by (intro mult_left_mono) auto
  finally have dq: "\<bar>q' - q\<bar> \<le> \<bar>q\<bar> * (2 / 2 ^ 53)" .
  define n where "n = \<bar>q\<bar>"
  define n' where "n' = \<bar>q'\<bar>"
  define dd where "dd = \<bar>q' - q\<bar>"
  define dr where "dr = \<bar>r - q'\<bar>"
  define res where "res = \<bar>r - q\<bar>"
  have t1: "n' \<le> n + dd" unfolding n_def n'_def dd_def by linarith
  have t2: "res \<le> dr + dd" unfolding res_def dr_def dd_def by linarith
  have n0: "0 \<le> n" by (simp add: n_def)
  note f = dq [folded dd_def n_def] r [folded q'_def, folded dr_def n'_def] t1 t2
  have "res \<le> n / 2 ^ 51 + h" using f n0 by (simp add: field_simps)
  then show ?thesis by (simp add: res_def n_def q_def)
qed

lemma get_trade_stats_nb_pnl_bound:
  assumes "get_trade_stats_nb (Fin s) (Fin ep) (Fin ef) (Fin xp) (Fin xf) d = Inr (Fin p, r)"
  shows "\<bar>p - spec_pnl s ep ef xp xf d\<bar>
      \<le> 2 * abs_tol + (\<bar>s * ep\<bar> + \<bar>s * xp\<bar> + \<bar>ef\<bar> + \<bar>xf\<bar>) / 2 ^ 50"
proof -
  from assms obtain ev xv w v0 p1 where
    ev: "rnd (s * ep) = Fin ev" and xv: "rnd (s * xp) = Fin xv"
    and w: "rnd (xv - ev) = Fin w" and tol: "\<bar>v0 - w\<bar> \<le> abs_tol"
    and p1: "rnd (dir_sign d * v0 - ef) = Fin p1" and p: "rnd (p1 - xf) = Fin p"
    by (rule get_trade_stats_nb_FinE)
  have g: "dir_sign d = 1 \<or> dir_sign d = - 1" by (cases d) simp_all
  have "\<bar>p - (dir_sign d * (s * xp - s * ep) - ef - xf)\<bar>
      \<le> 2 * abs_tol + (\<bar>s * ep\<bar> + \<bar>s * xp\<bar> + \<bar>ef\<bar> + \<bar>xf\<bar>) / 2 ^ 50"
    using rnd_Fin_error [OF ev] rnd_Fin_error [OF xv] rnd_Fin_error [OF w] tol
      rnd_Fin_error [OF p1] rnd_Fin_error [OF p] g _ eta_small
  proof (rule pnl_error_bound)
    show "0 \<le> (2::real) powi (- 1075)" by simp
    show "0 \<le> abs_tol" by (simp add: abs_tol_def)
  qed
  moreover have "spec_pnl s ep ef xp xf d = dir_sign d * (s * xp - s * ep) - ef - xf"
    by (simp add: spec_pnl_def algebra_simps)
  ultimately show ?thesis by simp
qed

lemma get_trade_stats_nb_return_bound:
  assumes "get_trade_stats_nb (Fin s) (Fin ep) (Fin ef) (Fin xp) (Fin xf) d = Inr (Fin p, Fin r)"
    and "2 powi (- 1022) \<le> \<bar>ep * s\<bar>"
  shows "\<bar>r - spec_return p ep s\<bar> \<le> \<bar>spec_return p ep s\<bar> / 2 ^ 51 + 2 powi (- 1075)"
proof -
  from assms(1) obtain ev where ev: "rnd (s * ep) = Fin ev" and r: "Fin r = rnd (p / ev)"
    by (rule get_trade_stats_nb_FinE)
  from assms(2) have n: "2 powi (- 1022) \<le> \<bar>s * ep\<bar>" by (simp add: mult.commute)
  have "0 < (2::real) powi (- 1022)" by simp
  with n have nz: "s * ep \<noteq> 0" by auto
  from r have "rnd (p / ev) = Fin r" by simp
  from rnd_Fin_error_normal [OF ev n] nz rnd_Fin_error [OF this]
  have "\<bar>r - p / (s * ep)\<bar> \<le> \<bar>p / (s * ep)\<bar> / 2 ^ 51 + 2 powi (- 1075)"
    by (rule return_error_bound)
  then show ?thesis by (simp add: spec_return_def mult.commute)
qed

lemma set1d_InrE:
  assumes "set1d xs i v = Inr ys"
  obtains k where "py_index (length xs) i = Some k" "ys = xs[k := v]"
  using assms by (auto simp: set1d_def split: option.splits)

lemma fill_trade_record_nb_stats:
  assumes "fill_trade_record_nb new_records r col size' entry_idx entry_price entry_fees
      exit_idx exit_price exit_fees direction status parent_id = Inr out"
  shows "\<exists>i t. py_index (length new_records) r = Some i \<and> out = new_records[i := t]
      \<and> tr_size t = size' \<and> tr_entry_price t = entry_price \<and> tr_entry_fees t = entry_fees
      \<and> tr_exit_price t = exit_price \<and> tr_exit_fees t = exit_fees
      \<and> tr_direction t = direction
      \<and> stats_of_record t = Inr (tr_pnl t, tr_return t)"
proof -
  from assms obtain pnl ret where
    st: "get_trade_stats_nb size' entry_price entry_fees exit_price exit_fees direction =
      Inr (pnl, ret)"
    and s: "set1d new_records r
            \<lparr>tr_id = r, tr_col = col, tr_size = size', tr_entry_idx = entry_idx,
             tr_entry_price = entry_price, tr_entry_fees = entry_fees, tr_exit_idx = exit_idx,
             tr_exit_price = exit_price, tr_exit_fees = exit_fees, tr_pnl = pnl,
             tr_return = ret, tr_direction = direction, tr_status = status,
             tr_parent_id = parent_id\<rparr> = Inr out"
    by (auto simp: fill_trade_record_nb_def split: sum.splits)
  from s obtain k where k: "py_index (length new_records) r = Some k"
    and out: "out = new_records[k := \<lparr>tr_id = r, tr_col = col, tr_size = size',
             tr_entry_idx = entry_idx,
             tr_entry_price = entry_price, tr_entry_fees = entry_fees, tr_exit_idx = exit_idx,
             tr_exit_price = exit_price, tr_exit_fees = exit_fees, tr_pnl = pnl,
             tr_return = ret, tr_direction = direction, tr_status = status,
             tr_parent_id = parent_id\<rparr>]"
    by (rule set1d_InrE)
  show ?thesis
    by (rule exI [of _ k], rule exI [of _ "\<lparr>tr_id = r, tr_col = col, tr_size = size',
             tr_entry_idx = entry_idx,
             tr_entry_price = entry_price, tr_entry_fees = entry_fees, tr_exit_idx = exit_idx,
             tr_exit_price = exit_price, tr_exit_fees = exit_fees, tr_pnl = pnl,
             tr_return = ret, tr_direction = direction, tr_status = status,
             tr_parent_id = parent_id\<rparr>"])
      (simp add: k out st stats_of_record_def)
qed

lemma fill_position_record_nb_alt:
  "fill_position_record_nb new_records r trade_records =
     (case (get1d trade_records 0, get1d trade_records (- 1)) of
        (Inr first_record, Inr last_record) \<Rightarrow>
          if feq (np_sum (map tr_size trade_records)) (Fin 0) then Inl ZeroDivisionError
          else fill_trade_record_nb new_records r (tr_col first_record)
                 (np_sum (map tr_size trade_records)) (tr_entry_idx first_record)
                 (fdiv (np_sum (map (\<lambda>t. fmul (tr_size t) (tr_entry_price t)) trade_records))
                    (np_sum (map tr_size trade_records)))
                 (np_sum (map tr_entry_fees trade_records)) (tr_exit_idx last_record)
                 (fdiv (np_sum (map (\<lambda>t. fmul (tr_size t) (tr_exit_price t)) trade_records))
                    (np_sum (map tr_size trade_records)))
                 (np_sum (map tr_exit_fees trade_records)) (tr_direction last_record)
                 (tr_status last_record) r
      | _ \<Rightarrow> Inl (IndexError ''index is out of bounds''))"
  by (simp add: fill_position_record_nb_def fill_trade_record_nb_def Let_def
      split: sum.splits)

lemma fill_position_record_nb_stats:
  assumes "fill_position_record_nb new_records r trade_records = Inr out"
  shows "\<exists>i t. py_index (length new_records) r = Some i \<and> out = new_records[i := t]
      \<and> stats_of_record t = Inr (tr_pnl t, tr_return t)"
  using assms unfolding fill_position_record_nb_alt
  by (auto split: sum.splits if_splits dest!: fill_trade_record_nb_stats)

text \<open>
  Claim C6, as stated, fails in two ways. The difference of exit and entry value goes
  through \<open>add_nb\<close>, so a difference within the absolute tolerance is taken as zero:
  a trade of size 1 entered at 1 and left at \<open>1 + 2\<^sup>-\<^sup>4\<^sup>0\<close> gets a profit of 0, where the
  formula gives \<open>2\<^sup>-\<^sup>4\<^sup>0\<close>. And every operation rounds, the code multiplying first and
  subtracting then: a trade of size 3 entered at the double nearest to 0.1 and left at the
  double nearest to 0.3 gets the profit \<open>21617278211378376 / 2\<^sup>5\<^sup>5\<close>, where the formula
  gives \<open>21617278211378379 / 2\<^sup>5\<^sup>5\<close>.
\<close>

theorem trade_record_stats_counterexample:
  "get_trade_stats_nb (Fin 1) (Fin 1) (Fin 0) (Fin (1 + 1 / 2 ^ 40)) (Fin 0) Long =
     Inr (Fin 0, Fin 0)
   \<and> spec_pnl 1 1 0 (1 + 1 / 2 ^ 40) 0 Long = 1 / 2 ^ 40
   \<and> is_double (3602879701896397 / 2 ^ 55) \<and> is_double (5404319552844595 / 2 ^ 54)
   \<and> get_trade_stats_nb (Fin 3) (Fin (3602879701896397 / 2 ^ 55)) (Fin 0)
       (Fin (5404319552844595 / 2 ^ 54)) (Fin 0) Long =
     Inr (Fin (21617278211378376 / 2 ^ 55), Fin (9007199254740989 / 2 ^ 52))
   \<and> spec_pnl 3 (3602879701896397 / 2 ^ 55) 0 (5404319552844595 / 2 ^ 54) 0 Long =
       21617278211378379 / 2 ^ 55"
proof -
  have "get_trade_stats_nb (Fin 1) (Fin 1) (Fin 0) (Fin (1 + 1 / 2 ^ 40)) (Fin 0) Long =
     Inr (Fin 0, Fin 0)"
    by (simp add: get_trade_stats_nb_def float_defs is_close_zero rnd_eval
        del: is_close_nb.simps)
  moreover have "get_trade_stats_nb (Fin 3) (Fin (3602879701896397 / 2 ^ 55)) (Fin 0)
       (Fin (5404319552844595 / 2 ^ 54)) (Fin 0) Long =
     Inr (Fin (21617278211378376 / 2 ^ 55), Fin (9007199254740989 / 2 ^ 52))"
    by (simp add: get_trade_stats_nb_def float_defs is_close_zero rnd_eval
        del: is_close_nb.simps)
  moreover have "is_double (3602879701896397 / 2 ^ 55)"
    by (rule is_double_dyadic [where k = 55]) simp_all
  moreover have "is_double (5404319552844595 / 2 ^ 54)"
    by (rule is_double_dyadic [where k = 54]) simp_all
  ultimately show ?thesis by (simp add: spec_pnl_def)
qed

text \<open>
  Claim C6, amended. \<open>fill_trade_record_nb\<close>, which writes the entry trades and the
  exit trades, and \<open>fill_position_record_nb\<close>, which writes the positions, store as
  \<open>pnl\<close> and \<open>return\<close> what \<open>get_trade_stats_nb\<close> computes from the size, the
  prices, the fees and the direction that they store. For finite arguments and a finite
  \<open>pnl\<close>, that \<open>pnl\<close> is
  \<open>(exit_price - entry_price) * size * dir_sign - entry_fees - exit_fees\<close> up to twice
  the absolute tolerance and the rounding of the operations: the two differ by at most
  \<open>2 * abs_tol + 2\<^sup>-\<^sup>5\<^sup>0 * (|size * entry_price| + |size * exit_price| + |entry_fees| +
  |exit_fees|)\<close>. Where \<open>|entry_price * size|\<close> is at least \<open>2\<^sup>-\<^sup>1\<^sup>0\<^sup>2\<^sup>2\<close>, a finite
  \<open>return\<close> is \<open>pnl / (entry_price * size)\<close> up to a relative error of \<open>2\<^sup>-\<^sup>5\<^sup>1\<close>
  and an absolute error of \<open>2\<^sup>-\<^sup>1\<^sup>0\<^sup>7\<^sup>5\<close>.
\<close>

theorem trade_record_stats:
  "(fill_trade_record_nb new_records r col size' entry_idx entry_price entry_fees exit_idx
      exit_price exit_fees direction status parent_id = Inr out \<longrightarrow>
      (\<exists>i t. py_index (length new_records) r = Some i \<and> out = new_records[i := t]
         \<and> tr_size t = size' \<and> tr_entry_price t = entry_price
         \<and> tr_entry_fees t = entry_fees \<and> tr_exit_price t = exit_price
         \<and> tr_exit_fees t = exit_fees \<and> tr_direction t = direction
         \<and> stats_of_record t = Inr (tr_pnl t, tr_return t)))
   \<and> (fill_position_record_nb new_records r trade_records = Inr out' \<longrightarrow>
      (\<exists>i t. py_index (length new_records) r = Some i \<and> out' = new_records[i := t]
         \<and> stats_of_record t = Inr (tr_pnl t, tr_return t)))
   \<and> (stats_of_record t = Inr (Fin pnl, ret) \<and> tr_size t = Fin s
        \<and> tr_entry_price t = Fin ep \<and> tr_entry_fees t = Fin ef
        \<and> tr_exit_price t = Fin xp \<and> tr_exit_fees t = Fin xf \<longrightarrow>
      \<bar>pnl - spec_pnl s ep ef xp xf (tr_direction t)\<bar>
        \<le> 2 * abs_tol + (\<bar>s * ep\<bar> + \<bar>s * xp\<bar> + \<bar>ef\<bar> + \<bar>xf\<bar>) / 2 ^ 50
      \<and> (\<forall>x. ret = Fin x \<and> 2 powi (- 1022) \<le> \<bar>ep * s\<bar> \<longrightarrow>
            \<bar>x - spec_return pnl ep s\<bar>
              \<le> \<bar>spec_return pnl ep s\<bar> / 2 ^ 51 + 2 powi (- 1075)))"
proof (intro conjI impI allI)
  assume "fill_trade_record_nb new_records r col size' entry_idx entry_price entry_fees
      exit_idx exit_price exit_fees direction status parent_id = Inr out"
  then show "\<exists>i t. py_index (length new_records) r = Some i \<and> out = new_records[i := t]
         \<and> tr_size t = size' \<and> tr_entry_price t = entry_price
         \<and> tr_entry_fees t = entry_fees \<and> tr_exit_price t = exit_price
         \<and> tr_exit_fees t = exit_fees \<and> tr_direction t = direction
         \<and> stats_of_record t = Inr (tr_pnl t, tr_return t)"
    by (rule fill_trade_record_nb_stats)
next
  assume "fill_position_record_nb new_records r trade_records = Inr out'"
  then show "\<exists>i t. py_index (length new_records) r = Some i \<and> out' = new_records[i := t]
         \<and> stats_of_record t = Inr (tr_pnl t, tr_return t)"
    by (rule fill_position_record_nb_stats)
next
  assume a: "stats_of_record t = Inr (Fin pnl, ret) \<and> tr_size t = Fin s
        \<and> tr_entry_price t = Fin ep \<and> tr_entry_fees t = Fin ef
        \<and> tr_exit_price t = Fin xp \<and> tr_exit_fees t = Fin xf"
  then have st: "get_trade_stats_nb (Fin s) (Fin ep) (Fin ef) (Fin xp) (Fin xf)
      (tr_direction t) = Inr (Fin pnl, ret)"
    by (auto simp: stats_of_record_def)
  then show "\<bar>pnl - spec_pnl s ep ef xp xf (tr_direction t)\<bar>
        \<le> 2 * abs_tol + (\<bar>s * ep\<bar> + \<bar>s * xp\<bar> + \<bar>ef\<bar> + \<bar>xf\<bar>) / 2 ^ 50"
    by (rule get_trade_stats_nb_pnl_bound)
  fix x
  assume "ret = Fin x \<and> 2 powi (- 1022) \<le> \<bar>ep * s\<bar>"
  with st show "\<bar>x - spec_return pnl ep s\<bar>
      \<le> \<bar>spec_return pnl ep s\<bar> / 2 ^ 51 + 2 powi (- 1075)"
    by (intro get_trade_stats_nb_return_bound [where d = "tr_direction t"]) auto
qed

theorem trade_record_stats_witness:
  "fill_trade_record_nb
     [\<lparr>tr_id = 0, tr_col = 0, tr_size = Fin 0, tr_entry_idx = 0, tr_entry_price = Fin 0,
       tr_entry_fees = Fin 0, tr_exit_idx = 0, tr_exit_price = Fin 0, tr_exit_fees = Fin 0,
       tr_pnl = Fin 0, tr_return = Fin 0, tr_direction = Long, tr_status = Open,
       tr_parent_id = 0\<rparr>]
     0 0 (Fin 1) 0 (Fin 10) (Fin 0) 1 (Fin 9) (Fin 0) Long Closed 0 =
   Inr [\<lparr>tr_id = 0, tr_col = 0, tr_size = Fin 1, tr_entry_idx = 0, tr_entry_price = Fin 10,
       tr_entry_fees = Fin 0, tr_exit_idx = 1, tr_exit_price = Fin 9, tr_exit_fees = Fin 0,
       tr_pnl = Fin (- 1), tr_return = Fin (- 3602879701896397 / 2 ^ 55),
       tr_direction = Long, tr_status = Closed, tr_parent_id = 0\<rparr>]
   \<and> \<bar>- 1 - spec_pnl 1 10 0 9 0 Long\<bar>
       \<le> 2 * abs_tol + (\<bar>1 * 10\<bar> + \<bar>1 * 9\<bar> + \<bar>0\<bar> + \<bar>0\<bar>) / 2 ^ 50
   \<and> \<bar>- 3602879701896397 / 2 ^ 55 - spec_return (- 1) 10 1\<bar>
       \<le> \<bar>spec_return (- 1) 10 1\<bar> / 2 ^ 51 + 2 powi (- 1075)"
proof -
  let ?blank = "\<lparr>tr_id = 0, tr_col = 0, tr_size = Fin 0, tr_entry_idx = 0, tr_entry_price = Fin 0,
       tr_entry_fees = Fin 0, tr_exit_idx = 0, tr_exit_price = Fin 0, tr_exit_fees = Fin 0,
       tr_pnl = Fin 0, tr_return = Fin 0, tr_direction = Long, tr_status = Open,
       tr_parent_id = 0\<rparr>"
  let ?filled = "\<lparr>tr_id = 0, tr_col = 0, tr_size = Fin 1, tr_entry_idx = 0, tr_entry_price = Fin 10,
       tr_entry_fees = Fin 0, tr_exit_idx = 1, tr_exit_price = Fin 9, tr_exit_fees = Fin 0,
       tr_pnl = Fin (- 1), tr_return = Fin (- 3602879701896397 / 2 ^ 55),
       tr_direction = Long, tr_status = Closed, tr_parent_id = 0\<rparr>"
  have st: "get_trade_stats_nb (Fin 1) (Fin 10) (Fin 0) (Fin 9) (Fin 0) Long =
      Inr (Fin (- 1), Fin (- 3602879701896397 / 2 ^ 55))"
    by (simp add: get_trade_stats_nb_def float_defs is_close_zero rnd_eval
        del: is_close_nb.simps)
  have run: "fill_trade_record_nb [?blank] 0 0 (Fin 1) 0 (Fin 10) (Fin 0) 1 (Fin 9) (Fin 0)
      Long Closed 0 = Inr [?filled]"
    by (simp add: fill_trade_record_nb_def st set1d_def py_index_def)
  have h: "stats_of_record ?filled = Inr (Fin (- 1), Fin (- 3602879701896397 / 2 ^ 55))
      \<and> tr_size ?filled = Fin 1 \<and> tr_entry_price ?filled = Fin 10 \<and> tr_entry_fees ?filled = Fin 0
      \<and> tr_exit_price ?filled = Fin 9 \<and> tr_exit_fees ?filled = Fin 0"
    by (simp add: stats_of_record_def st)
  have n: "(2::real) powi (- 1022) \<le> \<bar>10 * 1\<bar>"
    by (simp add: power_int_minus_divide)
  from trade_record_stats [where t = ?filled and pnl = "- 1"
      and ret = "Fin (- 3602879701896397 / 2 ^ 55)" and s = 1 and ep = 10 and ef = 0
      and xp = 9 and xf = 0] h n
  have "\<bar>- 1 - spec_pnl 1 10 0 9 0 Long\<bar>
       \<le> 2 * abs_tol + (\<bar>1 * 10\<bar> + \<bar>1 * 9\<bar> + \<bar>0\<bar> + \<bar>0\<bar>) / 2 ^ 50
   \<and> \<bar>- 3602879701896397 / 2 ^ 55 - spec_return (- 1) 10 1\<bar>
       \<le> \<bar>spec_return (- 1) 10 1\<bar> / 2 ^ 51 + 2 powi (- 1075)"
    by auto
  with run show ?thesis by blast
qed

subsection \<open>Orders that are not filled\<close>

lemma buy_update_filled: "res_status (snd (buy_update es ap fs fp frc)) = Filled"
  by (simp add: buy_update_def Let_def)

lemma sell_update_filled: "res_status (snd (sell_update es ap sl fp fac)) = Filled"
  by (simp add: sell_update_def Let_def)

lemma order_not_filled_status [simp]:
  "res_status (order_not_filled_nb s i) = s"
  by (simp add: order_not_filled_nb_def)

lemma buy_nb_not_filled:
  assumes "buy_nb es sz pr dir fe ff sl mn mx gr vm lc ap pc pa cl = Inr (st, r)"
    and "res_status r \<noteq> Filled"
  shows "st = es"
proof -
  from assms(1) obtain adj_price cash_limit where
    r: "leave es
          (ebind (buy_adj_size es sz dir mx gr ap cash_limit)
             (\<lambda>adj_size.
                ebind (buy_final_size adj_size adj_price fe ff gr cash_limit)
                  (\<lambda>(final_size, fees_paid, final_req_cash).
                     ebind (buy_size_checks adj_size final_size sz mn ap)
                       (\<lambda>_. Cont (buy_update es adj_price final_size fees_paid
                                     final_req_cash))))) = Inr (st, r)"
    by (auto simp: buy_nb_def split: sum.splits)
  show ?thesis
  proof (cases "buy_adj_size es sz dir mx gr ap cash_limit")
    case (Cont adj_size)
    show ?thesis
    proof (cases "buy_final_size adj_size adj_price fe ff gr cash_limit")
      case c2: (Cont t)
      obtain fs fp frc where t: "t = (fs, fp, frc)" by (cases t) auto
      show ?thesis
      proof (cases "buy_size_checks adj_size fs sz mn ap")
        case c3: (Cont u)
        with r Cont c2 t have "r = snd (buy_update es adj_price fs fp frc)" by auto
        with assms(2) buy_update_filled show ?thesis by simp
      qed (use r Cont c2 t in auto)
    qed (use r Cont in auto)
  qed (use r in auto)
qed

lemma sell_nb_not_filled:
  assumes "sell_nb es sz pr dir fe ff sl mn mx gr vm lc ap pc pa cl = Inr (st, r)"
    and "res_status r \<noteq> Filled"
  shows "st = es"
proof -
  from assms(1) obtain adj_price where
    r: "leave es
            (ebind (sell_size_limit es sz adj_price dir fe ff lc pc)
               (\<lambda>size_limit.
                  ebind (sell_size_checks es size_limit sz dir mn mx gr ap)
                    (\<lambda>size_limit.
                       ebind (sell_acq_cash size_limit adj_price fe ff)
                         (\<lambda>(fees_paid, final_acq_cash).
                            Cont (sell_update es adj_price size_limit fees_paid
                                    final_acq_cash))))) = Inr (st, r)"
    by (auto simp: sell_nb_def split: sum.splits)
  show ?thesis
  proof (cases "sell_size_limit es sz adj_price dir fe ff lc pc")
    case (Cont sl0)
    show ?thesis
    proof (cases "sell_size_checks es sl0 sz dir mn mx gr ap")
      case c2: (Cont sl1)
      show ?thesis
      proof (cases "sell_acq_cash sl1 adj_price fe ff")
        case c3: (Cont t)
        obtain fp fac where t: "t = (fp, fac)" by (cases t) auto
        with r Cont c2 c3 have "r = snd (sell_update es adj_price sl1 fp fac)" by auto
        with assms(2) sell_update_filled show ?thesis by simp
      qed (use r Cont c2 in auto)
    qed (use r Cont in auto)
  qed (use r in auto)
qed

text \<open>
  Claim C3. Whenever \<open>execute_order_nb\<close> returns and the status of the result is not
  \<open>Filled\<close> (an ignored order, a rejected order, the random rejection), the state it
  returns is the state it was given, with cash, position, debt and free cash snapped to
  zero where they are within tolerance of it.
\<close>

theorem execute_order_nb_not_filled:
  assumes "execute_order_nb u state order price_area = Inr (new_state, r)"
    and "res_status r \<noteq> Filled"
  shows "new_state = stabilised state"
  using assms
  unfolding execute_order_nb_def Let_def random_reject_def
  by (auto split: option.splits prod.splits if_splits early.splits sum.splits
      dest: buy_nb_not_filled sell_nb_not_filled)

theorem execute_order_nb_not_filled_witness:
  "execute_order_nb (1 / 4)
     \<lparr>cash = Fin 100, position = Fin 0, debt = Fin 0, free_cash = Fin 100,
      val_price = Fin 10, value' = Fin 100\<rparr>
     (order_nb\<lparr>req_size := Fin 1, req_price := Fin 10, req_reject_prob := Fin (1 / 2)\<rparr>)
     NoPriceArea =
   Inr (\<lparr>cash = Fin 100, position = Fin 0, debt = Fin 0, free_cash = Fin 100\<rparr>,
        order_not_filled_nb Rejected RandomEvent)
   \<and> res_status (order_not_filled_nb Rejected RandomEvent) \<noteq> Filled"
proof -
  have run: "execute_order_nb (1 / 4)
     \<lparr>cash = Fin 100, position = Fin 0, debt = Fin 0, free_cash = Fin 100,
      val_price = Fin 10, value' = Fin 100\<rparr>
     (order_nb\<lparr>req_size := Fin 1, req_price := Fin 10, req_reject_prob := Fin (1 / 2)\<rparr>)
     NoPriceArea =
   Inr (\<lparr>cash = Fin 100, position = Fin 0, debt = Fin 0, free_cash = Fin 100\<rparr>,
        order_not_filled_nb Rejected RandomEvent)"
    by (simp add: execute_defs buy_defs float_defs Let_def)
  have st: "res_status (order_not_filled_nb Rejected RandomEvent) \<noteq> Filled" by simp
  from execute_order_nb_not_filled [OF run st] run st show ?thesis by simp
qed

subsection \<open>States that are not valid\<close>

lemma snap_zero_isnan [simp]: "isnan (snap_zero x) = isnan x"
  by (cases x) auto

lemma snap_zero_isfinite [simp]: "isfinite (snap_zero x) = isfinite x"
  by (cases x) auto

lemma snap_zero_negative: "flt x (Fin (- abs_tol)) \<Longrightarrow> flt (snap_zero x) (Fin 0)"
  by (cases x) (auto simp: abs_tol_def)

text \<open>
  Claim C4, as stated, fails: an order whose size is NaN is ignored before the state is
  looked at, so a state with negative cash is handed back with status \<open>Ignored\<close>.
\<close>

theorem execute_order_nb_invalid_state_counterexample:
  "execute_order_nb 0
     \<lparr>cash = Fin (- 1), position = Fin 0, debt = Fin 0, free_cash = Fin (- 1),
      val_price = Fin 10, value' = Fin (- 1)\<rparr>
     (order_nb\<lparr>req_price := Fin 10\<rparr>) NoPriceArea =
   Inr (\<lparr>cash = Fin (- 1), position = Fin 0, debt = Fin 0, free_cash = Fin (- 1)\<rparr>,
        order_not_filled_nb Ignored SizeNaN)"
  by (simp add: execute_defs float_defs Let_def)

text \<open>
  Claim C4, amended. For every order whose size is not NaN and whose resolved price is
  not NaN, and every price area, \<open>execute_order_nb\<close> raises an error when the cash is
  NaN or below \<open>-abs_tol\<close>, the position is not finite, the debt is not finite or
  below \<open>-abs_tol\<close>, or the free cash is NaN.
\<close>

theorem execute_order_nb_invalid_state:
  assumes "isnan (cash state) \<or> flt (cash state) (Fin (- abs_tol))
      \<or> \<not> isfinite (position state)
      \<or> \<not> isfinite (debt state) \<or> flt (debt state) (Fin (- abs_tol))
      \<or> isnan (free_cash state)"
    and "\<not> isnan (req_size order)"
    and "\<not> isnan (fst (resolve_price order price_area))"
  shows "\<exists>e. execute_order_nb u state order price_area = Inl e"
proof -
  from assms(1) have "check_exec_state (stabilised state) \<noteq> None"
    by (auto simp: check_exec_state_def stabilised_def dest: snap_zero_negative)
  then obtain e where "check_exec_state (stabilised state) = Some e" by auto
  with assms(2,3) show ?thesis
    by (cases "check_price_area price_area"; cases "resolve_price order price_area")
      (auto simp: execute_order_nb_def Let_def)
qed

theorem execute_order_nb_invalid_state_witness:
  "flt (Fin (- 1)) (Fin (- abs_tol))
   \<and> \<not> isnan (req_size (order_nb\<lparr>req_size := Fin 1, req_price := Fin 10\<rparr>))
   \<and> \<not> isnan (fst (resolve_price (order_nb\<lparr>req_size := Fin 1, req_price := Fin 10\<rparr>)
            NoPriceArea))
   \<and> execute_order_nb 0
        \<lparr>cash = Fin (- 1), position = Fin 0, debt = Fin 0, free_cash = Fin (- 1),
         val_price = Fin 10, value' = Fin (- 1)\<rparr>
        (order_nb\<lparr>req_size := Fin 1, req_price := Fin 10\<rparr>) NoPriceArea =
      Inl (ValueError ''state.cash cannot be NaN and must be greater than 0'')"
  using execute_order_nb_invalid_state [of
      "\<lparr>cash = Fin (- 1), position = Fin 0, debt = Fin 0, free_cash = Fin (- 1),
         val_price = Fin 10, value' = Fin (- 1)\<rparr>"
      "order_nb\<lparr>req_size := Fin 1, req_price := Fin 10\<rparr>" NoPriceArea 0]
  by (simp add: execute_defs float_defs Let_def)

subsection \<open>Infinite amounts\<close>

lemma resolve_size_amount:
  "req_size_type order = Amount \<Longrightarrow>
   resolve_size order p vp v =
     Cont (norm_percent (norm_amount (req_direction order)
       (if req_direction order = ShortOnly then fmul (req_size order) (Fin (- 1))
        else req_size order, Amount)))"
  by (simp add: resolve_size_def norm_target_percent_def norm_value_def
      norm_target_amount_def Let_def)

text \<open>
  Claim C7, as stated, fails: an amount of \<open>+inf\<close> under direction \<open>Both\<close> is not
  converted; it stays an amount and no percentage is set.
\<close>

theorem execute_order_nb_infinite_amount_counterexample:
  "resolve_size (order_nb\<lparr>req_size := PInf\<rparr>) (Fin 0) (Fin 10) (Fin 100) = Cont (PInf, NaN)
   \<and> fabs NaN \<noteq> Fin 1"
  by (simp add: execute_defs)

text \<open>
  Claim C7, amended. For an order of type \<open>Amount\<close> that passes the checks, a size
  that is \<open>-inf\<close> once the sign of direction \<open>ShortOnly\<close> is applied (\<open>-inf\<close> under
  \<open>Both\<close>, \<open>+inf\<close> under \<open>ShortOnly\<close>) becomes a percentage of 1 with size
  \<open>-inf\<close> and goes to \<open>sell_nb\<close> with size \<open>+inf\<close> and percent 1; a size that is
  \<open>+inf\<close> once the sign is applied is not converted and goes to \<open>buy_nb\<close> with
  size \<open>+inf\<close> and no percentage.
\<close>

theorem execute_order_nb_infinite_amount:
  assumes "check_price_area price_area = None"
    and "resolve_price order price_area = (order_price, is_closing_price)"
    and "\<not> isnan order_price"
    and "check_exec_state (stabilised state) = None"
    and "check_order order order_price (position (stabilised state)) = None"
    and "req_size_type order = Amount"
  shows "(req_direction order = Both \<and> req_size order = NInf
          \<or> req_direction order = ShortOnly \<and> req_size order = PInf \<longrightarrow>
          resolve_size order (position (stabilised state)) (snap_zero (val_price state))
            (snap_zero (value' state)) = Cont (NInf, Fin 1)
          \<and> execute_order_nb u state order price_area =
              random_reject u order (stabilised state)
                (sell_nb (stabilised state) PInf order_price (req_direction order)
                   (req_fees order) (req_fixed_fees order) (req_slippage order)
                   (req_min_size order) (req_max_size order) (req_size_granularity order)
                   (req_price_area_vio_mode order) (req_lock_cash order)
                   (req_allow_partial order) (Fin 1) price_area is_closing_price))
       \<and> (req_direction order = Both \<and> req_size order = PInf
          \<or> req_direction order = ShortOnly \<and> req_size order = NInf \<longrightarrow>
          resolve_size order (position (stabilised state)) (snap_zero (val_price state))
            (snap_zero (value' state)) = Cont (PInf, NaN)
          \<and> execute_order_nb u state order price_area =
              random_reject u order (stabilised state)
                (buy_nb (stabilised state) PInf order_price (req_direction order)
                   (req_fees order) (req_fixed_fees order) (req_slippage order)
                   (req_min_size order) (req_max_size order) (req_size_granularity order)
                   (req_price_area_vio_mode order) (req_lock_cash order)
                   (req_allow_partial order) NaN price_area is_closing_price))"
proof -
  have neg: "resolve_size order p vp v = Cont (NInf, Fin 1)"
    if "req_direction order = Both \<and> req_size order = NInf
        \<or> req_direction order = ShortOnly \<and> req_size order = PInf" for p vp v
    using that assms(6)
    by (auto simp: resolve_size_amount norm_amount_def norm_percent_def sign_inf_def)
  have pos: "resolve_size order p vp v = Cont (PInf, NaN)"
    if "req_direction order = Both \<and> req_size order = PInf
        \<or> req_direction order = ShortOnly \<and> req_size order = NInf" for p vp v
    using that assms(6)
    by (auto simp: resolve_size_amount norm_amount_def norm_percent_def sign_inf_def)
  have run: "execute_order_nb u state order price_area =
      (case resolve_size order (position (stabilised state)) (snap_zero (val_price state))
              (snap_zero (value' state)) of
         Raise e \<Rightarrow> Inl e
       | NotFilled status status_info \<Rightarrow>
           Inr (stabilised state, order_not_filled_nb status status_info)
       | Cont (order_size, percent) \<Rightarrow>
           random_reject u order (stabilised state)
             (if fgt order_size (Fin 0) then
                buy_nb (stabilised state) order_size order_price (req_direction order)
                  (req_fees order) (req_fixed_fees order) (req_slippage order)
                  (req_min_size order) (req_max_size order) (req_size_granularity order)
                  (req_price_area_vio_mode order) (req_lock_cash order)
                  (req_allow_partial order) percent price_area is_closing_price
              else
                sell_nb (stabilised state) (fneg order_size) order_price (req_direction order)
                  (req_fees order) (req_fixed_fees order) (req_slippage order)
                  (req_min_size order) (req_max_size order) (req_size_granularity order)
                  (req_price_area_vio_mode order) (req_lock_cash order)
                  (req_allow_partial order) percent price_area is_closing_price))"
    if "\<not> isnan (req_size order)"
    using that assms(1-5) by (simp add: execute_order_nb_def Let_def)
  show ?thesis
  proof (intro conjI impI)
    assume a: "req_direction order = Both \<and> req_size order = NInf
        \<or> req_direction order = ShortOnly \<and> req_size order = PInf"
    then have "\<not> isnan (req_size order)" by auto
    from run [OF this] neg [OF a]
    show "execute_order_nb u state order price_area =
              random_reject u order (stabilised state)
                (sell_nb (stabilised state) PInf order_price (req_direction order)
                   (req_fees order) (req_fixed_fees order) (req_slippage order)
                   (req_min_size order) (req_max_size order) (req_size_granularity order)
                   (req_price_area_vio_mode order) (req_lock_cash order)
                   (req_allow_partial order) (Fin 1) price_area is_closing_price)"
      by (simp add: fgt_def)
  next
    assume a: "req_direction order = Both \<and> req_size order = PInf
        \<or> req_direction order = ShortOnly \<and> req_size order = NInf"
    then have "\<not> isnan (req_size order)" by auto
    from run [OF this] pos [OF a]
    show "execute_order_nb u state order price_area =
              random_reject u order (stabilised state)
                (buy_nb (stabilised state) PInf order_price (req_direction order)
                   (req_fees order) (req_fixed_fees order) (req_slippage order)
                   (req_min_size order) (req_max_size order) (req_size_granularity order)
                   (req_price_area_vio_mode order) (req_lock_cash order)
                   (req_allow_partial order) NaN price_area is_closing_price)"
      by (simp add: fgt_def)
  qed (use neg pos in auto)
qed


theorem execute_order_nb_infinite_amount_witness:
  "check_price_area NoPriceArea = None
   \<and> resolve_price (order_nb\<lparr>req_size := NInf, req_price := Fin 10\<rparr>) NoPriceArea =
       (Fin 10, False)
   \<and> execute_order_nb 0
        \<lparr>cash = Fin 100, position = Fin 0, debt = Fin 0, free_cash = Fin 100,
         val_price = Fin 10, value' = Fin 100\<rparr>
        (order_nb\<lparr>req_size := NInf, req_price := Fin 10\<rparr>) NoPriceArea =
      Inr (\<lparr>cash = Fin 200, position = Fin (- 10), debt = Fin 100, free_cash = Fin 0\<rparr>,
           \<lparr>res_size = Fin 10, res_price = Fin 10, res_fees = Fin 0, res_side = Some Sell,
            res_status = Filled, res_status_info = None\<rparr>)"
proof -
  let ?state = "\<lparr>cash = Fin 100, position = Fin 0, debt = Fin 0, free_cash = Fin 100,
         val_price = Fin 10, value' = Fin 100\<rparr>"
  let ?order = "order_nb\<lparr>req_size := NInf, req_price := Fin 10\<rparr>"
  have h1: "check_price_area NoPriceArea = None"
    by (simp add: execute_defs float_defs)
  have h2: "resolve_price ?order NoPriceArea = (Fin 10, False)"
    by (simp add: execute_defs)
  have h3: "\<not> isnan (Fin 10)" by simp
  have h4: "check_exec_state (stabilised ?state) = None"
    by (simp add: execute_defs float_defs)
  have h5: "check_order ?order (Fin 10) (position (stabilised ?state)) = None"
    by (simp add: execute_defs float_defs)
  have h6: "req_size_type ?order = Amount"
    by (simp add: execute_defs)
  have h7: "req_direction ?order = Both \<and> req_size ?order = NInf"
    by (simp add: execute_defs)
  from execute_order_nb_infinite_amount [OF h1 h2 h3 h4 h5 h6, of 0] h7
  have "execute_order_nb 0 ?state ?order NoPriceArea =
      random_reject 0 ?order (stabilised ?state)
        (sell_nb (stabilised ?state) PInf (Fin 10) (req_direction ?order)
           (req_fees ?order) (req_fixed_fees ?order) (req_slippage ?order)
           (req_min_size ?order) (req_max_size ?order) (req_size_granularity ?order)
           (req_price_area_vio_mode ?order) (req_lock_cash ?order)
           (req_allow_partial ?order) (Fin 1) NoPriceArea False)"
    by blast
  then have "execute_order_nb 0 ?state ?order NoPriceArea =
      Inr (\<lparr>cash = Fin 200, position = Fin (- 10), debt = Fin 100, free_cash = Fin 0\<rparr>,
           \<lparr>res_size = Fin 10, res_price = Fin 10, res_fees = Fin 0, res_side = Some Sell,
            res_status = Filled, res_status_info = None\<rparr>)"
    by (simp add: execute_defs sell_defs float_defs Let_def)
  with h1 h2 show ?thesis by simp
qed

subsection \<open>Filled orders\<close>

text \<open>
  Claim C1 fails on the fill evaluated here. An order of type \<open>Percent\<close> and size 0 passes the test for a NaN size
  at the head of \<open>execute_order_nb\<close>; the normalisation then sets the size to
  \<open>sign(0) * inf\<close>, which is NaN, and \<open>sell_nb\<close> fills the order with size NaN:
  cash, position and free cash of the state become NaN, and no equation between the
  cash before and after holds.
\<close>

theorem execute_order_nb_zero_percent:
  "execute_order_nb 0
     \<lparr>cash = Fin 100, position = Fin 0, debt = Fin 0, free_cash = Fin 100,
      val_price = Fin 10, value' = Fin 100\<rparr>
     (order_nb\<lparr>req_size := Fin 0, req_price := Fin 10, req_size_type := Percent\<rparr>)
     NoPriceArea =
   Inr (\<lparr>cash = NaN, position = NaN, debt = Fin 0, free_cash = NaN\<rparr>,
        \<lparr>res_size = NaN, res_price = Fin 10, res_fees = NaN, res_side = Some Sell,
         res_status = Filled, res_status_info = None\<rparr>)"
  by (simp add: execute_defs sell_defs float_defs add_nb_def Let_def)


subsection \<open>Full record buffers\<close>

text \<open>
  Claim C9, as stated, fails for the capacity 0: a buffer without rows holds as many
  records as it can, and a filled order that arrives is not recorded and raises nothing.
\<close>

theorem process_order_nb_overflow_counterexample:
  "process_order_nb 0 0 0 0 NoPriceArea
     \<lparr>cash = Fin 100, position = Fin 0, debt = Fin 0, free_cash = Fin 100,
      val_price = Fin 10, value' = Fin 100\<rparr>
     False (order_nb\<lparr>req_size := Fin 1, req_price := Fin 10\<rparr>)
     \<lparr>nrows = 0, ncols = 1, cell = (\<lambda>_ _. None)\<rparr> [- 1]
     \<lparr>nrows = 0, ncols = 1, cell = (\<lambda>_ _. None)\<rparr> [- 1] =
   Inr (\<lparr>res_size = Fin 1, res_price = Fin 10, res_fees = Fin 0, res_side = Some Buy,
         res_status = Filled, res_status_info = None\<rparr>,
        \<lparr>cash = Fin 90, position = Fin 1, debt = Fin 0, free_cash = Fin 90,
         val_price = Fin 10, value' = Fin 100\<rparr>,
        \<lparr>nrows = 0, ncols = 1, cell = (\<lambda>_ _. None)\<rparr>, [- 1],
        \<lparr>nrows = 0, ncols = 1, cell = (\<lambda>_ _. None)\<rparr>, [- 1])"
  by (simp add: process_order_nb_def append_order_record_def append_log_record_def
      execute_defs buy_defs float_defs Let_def)

text \<open>
  Claim C9, amended. Let \<open>execute_order_nb\<close> return and let the order not be one that
  is rejected with \<open>raise_reject\<close> set. When the capacity of the buffer of order records
  is positive, a filled order that arrives when the last written index of its column is at
  least the capacity minus 1 raises the error that asks for a higher \<open>max_orders\<close>. When
  the capacity of the buffer of log records is positive and the order record, if any, was
  written, an order with \<open>log\<close> set that arrives when the last written index of its
  column is at least the capacity minus 1 raises the error that asks for a higher
  \<open>max_logs\<close>.
\<close>

theorem process_order_nb_overflow:
  assumes "execute_order_nb u state order price_area = Inr (exec_state, order_result)"
    and "\<not> (res_status order_result = Rejected \<and> req_raise_reject order)"
  shows "(res_status order_result = Filled \<and> 0 < nrows order_records
          \<and> get1d last_oidx (int col) = Inr lo \<and> int (nrows order_records) - 1 \<le> lo \<longrightarrow>
          process_order_nb u group' col i price_area state update_value order order_records
            last_oidx log_records last_lidx =
          Inl (IndexError ''order_records index out of range. Set a higher max_orders.''))
     \<and> (append_order_record col i order_result order_records last_oidx =
            Inr (order_records', last_oidx')
          \<and> req_log order \<and> 0 < nrows log_records
          \<and> get1d last_lidx (int col) = Inr ll \<and> int (nrows log_records) - 1 \<le> ll \<longrightarrow>
          process_order_nb u group' col i price_area state update_value order order_records
            last_oidx log_records last_lidx =
          Inl (IndexError ''log_records index out of range. Set a higher max_logs.''))"
  using assms
  by (auto simp: process_order_nb_def append_order_record_def append_log_record_def Let_def
      split: prod.splits)

theorem process_order_nb_overflow_witness:
  "process_order_nb 0 0 0 0 NoPriceArea
     \<lparr>cash = Fin 100, position = Fin 0, debt = Fin 0, free_cash = Fin 100,
      val_price = Fin 10, value' = Fin 100\<rparr>
     False (order_nb\<lparr>req_size := Fin 1, req_price := Fin 10\<rparr>)
     \<lparr>nrows = 1, ncols = 1, cell = (\<lambda>_ _. None)\<rparr> [0]
     \<lparr>nrows = 1, ncols = 1, cell = (\<lambda>_ _. None)\<rparr> [- 1] =
   Inl (IndexError ''order_records index out of range. Set a higher max_orders.'')
   \<and> process_order_nb 0 0 0 0 NoPriceArea
     \<lparr>cash = Fin 100, position = Fin 0, debt = Fin 0, free_cash = Fin 100,
      val_price = Fin 10, value' = Fin 100\<rparr>
     False (order_nb\<lparr>req_log := True\<rparr>)
     \<lparr>nrows = 1, ncols = 1, cell = (\<lambda>_ _. None)\<rparr> [- 1]
     \<lparr>nrows = 1, ncols = 1, cell = (\<lambda>_ _. None)\<rparr> [0] =
   Inl (IndexError ''log_records index out of range. Set a higher max_logs.'')"
proof -
  let ?state = "\<lparr>cash = Fin 100, position = Fin 0, debt = Fin 0, free_cash = Fin 100,
      val_price = Fin 10, value' = Fin 100\<rparr>"
  let ?orders = "\<lparr>nrows = 1, ncols = 1, cell = (\<lambda>_ _. None)\<rparr> :: order_record array2d"
  let ?logs = "\<lparr>nrows = 1, ncols = 1, cell = (\<lambda>_ _. None)\<rparr> :: log_record array2d"
  let ?buy = "order_nb\<lparr>req_size := Fin 1, req_price := Fin 10\<rparr>"
  let ?filled = "\<lparr>res_size = Fin 1, res_price = Fin 10, res_fees = Fin 0, res_side = Some Buy,
         res_status = Filled, res_status_info = None\<rparr>"
  let ?nan = "order_nb\<lparr>req_log := True\<rparr>"
  have e1: "execute_order_nb 0 ?state ?buy NoPriceArea =
      Inr (\<lparr>cash = Fin 90, position = Fin 1, debt = Fin 0, free_cash = Fin 90\<rparr>, ?filled)"
    by (simp add: execute_defs buy_defs float_defs Let_def)
  have n1: "\<not> (res_status ?filled = Rejected \<and> req_raise_reject ?buy)" by simp
  have g1: "res_status ?filled = Filled \<and> 0 < nrows ?orders
      \<and> get1d [0] (int 0) = Inr 0 \<and> int (nrows ?orders) - 1 \<le> 0"
    by (simp add: get1d_def py_index_def)
  from process_order_nb_overflow [OF e1 n1, where order_records = ?orders
      and last_oidx = "[0]" and col = 0 and lo = 0 and group' = 0 and i = 0
      and update_value = False and log_records = ?logs and last_lidx = "[- 1]"] g1
  have c1: "process_order_nb 0 0 0 0 NoPriceArea ?state False ?buy ?orders [0] ?logs [- 1] =
      Inl (IndexError ''order_records index out of range. Set a higher max_orders.'')"
    by blast
  have e2: "execute_order_nb 0 ?state ?nan NoPriceArea =
      Inr (\<lparr>cash = Fin 100, position = Fin 0, debt = Fin 0, free_cash = Fin 100\<rparr>,
           order_not_filled_nb Ignored SizeNaN)"
    by (simp add: execute_defs float_defs Let_def)
  have n2: "\<not> (res_status (order_not_filled_nb Ignored SizeNaN) = Rejected
      \<and> req_raise_reject ?nan)" by simp
  have g2: "append_order_record 0 0 (order_not_filled_nb Ignored SizeNaN) ?orders [- 1] =
        Inr (?orders, [- 1])
      \<and> req_log ?nan \<and> 0 < nrows ?logs
      \<and> get1d [0] (int 0) = Inr 0 \<and> int (nrows ?logs) - 1 \<le> 0"
    by (simp add: append_order_record_def get1d_def py_index_def order_nb_def)
  from process_order_nb_overflow [OF e2 n2, where order_records = ?orders
      and last_oidx = "[- 1]" and col = 0 and group' = 0 and i = 0
      and update_value = False and log_records = ?logs and last_lidx = "[0]"
      and order_records' = ?orders and last_oidx' = "[- 1]" and ll = 0] g2
  have c2: "process_order_nb 0 0 0 0 NoPriceArea ?state False ?nan ?orders [- 1] ?logs [0] =
      Inl (IndexError ''log_records index out of range. Set a higher max_logs.'')"
    by blast
  from c1 c2 show ?thesis by simp
qed


end
